theory Spec2Isabelle
  imports Complex_Main "HOL-Library.AList" "HOL-Library.Multiset"
begin

section \<open>Values of the runtime\<close>

text \<open>
  The handlers of \<^verbatim>\<open>src/index.js\<close> work on dynamically typed values: the argument
  bag of a tool call is parsed JSON, an element is a plain object. A value is one of the
  JSON shapes, \<open>undefined\<close>, or \<open>JHost\<close>: a value of the runtime that is not data (a
  function or a built-in prototype object, which a property read on an object literal
  can return for an inherited key).

  A number is a rational, the value of a finite double. Where the handlers' arithmetic
  can round, the result is rounded to the nearest double (\<open>round_to_double\<close> below).
  A string is a list of characters; an object is an association list in insertion
  order, read with \<open>map_of\<close> (keys are unique in every object the handlers build,
  since they write with \<open>AList.update\<close>).

  Not modelled: the infinities and NaN, which JSON arguments cannot carry; the rule that
  integer-like keys of an object are listed first; an own key \<open>__proto__\<close>; and the text
  that \<^verbatim>\<open>JSON.stringify\<close> makes of a value (a result or a document is the value it
  is given).
\<close>

datatype jv =
    JUndef
  | JNull
  | JBool bool
  | JNum rat
  | JStr string
  | JArr "jv list"
  | JObj "(string \<times> jv) list"
  | JHost

type_synonym obj = "(string \<times> jv) list"

text \<open>\<^verbatim>\<open>o[k]\<close> and \<^verbatim>\<open>o.k\<close> on an object without inherited data keys.\<close>

definition obj_get :: "obj \<Rightarrow> string \<Rightarrow> jv" where
  "obj_get ob k = (case map_of ob k of None \<Rightarrow> JUndef | Some v \<Rightarrow> v)"

text \<open>\<^verbatim>\<open>o[k] = v\<close>: an existing key keeps its place, a new key goes last.\<close>

definition obj_set :: "obj \<Rightarrow> string \<Rightarrow> jv \<Rightarrow> obj" where
  "obj_set ob k v = AList.update k v ob"

text \<open>\<^verbatim>\<open>delete o[k]\<close>.\<close>

definition obj_delete :: "obj \<Rightarrow> string \<Rightarrow> obj" where
  "obj_delete ob k = AList.delete k ob"

text \<open>\<^verbatim>\<open>{...a, ...b}\<close>: the keys of \<open>b\<close> are written over \<open>a\<close> in order.\<close>

definition spread :: "obj \<Rightarrow> obj \<Rightarrow> obj" where
  "spread a b = foldl (\<lambda>acc kv. obj_set acc (fst kv) (snd kv)) a b"

text \<open>Truthiness, as \<^verbatim>\<open>!v\<close>, \<^verbatim>\<open>a && b\<close> and \<^verbatim>\<open>a || b\<close> read it.\<close>

fun js_truthy :: "jv \<Rightarrow> bool" where
  "js_truthy JUndef = False"
| "js_truthy JNull = False"
| "js_truthy (JBool b) = b"
| "js_truthy (JNum n) = (n \<noteq> 0)"
| "js_truthy (JStr s) = (s \<noteq> [])"
| "js_truthy (JArr xs) = True"
| "js_truthy (JObj ob) = True"
| "js_truthy JHost = True"

text \<open>\<^verbatim>\<open>a || b\<close>\<close>

definition js_or :: "jv \<Rightarrow> jv \<Rightarrow> jv" where
  "js_or a b = (if js_truthy a then a else b)"

text \<open>\<^verbatim>\<open>a ?? b\<close>\<close>

definition nullish :: "jv \<Rightarrow> jv \<Rightarrow> jv" where
  "nullish a b = (if a = JUndef \<or> a = JNull then b else a)"

text \<open>\<^verbatim>\<open>typeof v === 'string'\<close>\<close>

fun is_string :: "jv \<Rightarrow> bool" where
  "is_string (JStr s) = True"
| "is_string v = False"

text \<open>
  \<^verbatim>\<open>s.toLowerCase()\<close>. Only the letters A to Z are lowered; the three font names are
  ASCII, and no other character lowers to one of their letters, so the same strings
  reach the same font code.
\<close>

definition lower_char :: "char \<Rightarrow> char" where
  "lower_char c =
     (case map_of (zip ''ABCDEFGHIJKLMNOPQRSTUVWXYZ'' ''abcdefghijklmnopqrstuvwxyz'') c of
        None \<Rightarrow> c | Some d \<Rightarrow> d)"

definition toLowerCase :: "string \<Rightarrow> string" where
  "toLowerCase s = map lower_char s"

text \<open>\<^verbatim>\<open>s.endsWith(t)\<close>\<close>

definition endsWith :: "string \<Rightarrow> string \<Rightarrow> bool" where
  "endsWith s t = (length t \<le> length s \<and> drop (length s - length t) s = t)"

text \<open>
  \<^verbatim>\<open>!p || p.length < 2\<close>, the test both \<^verbatim>\<open>create_element\<close> and \<^verbatim>\<open>save_scene\<close>
  make on an element's points. A number or \<open>true\<close> has no length and
  \<^verbatim>\<open>undefined < 2\<close> is false. Stored points are absent or an array (the schema
  admits nothing else), so the length of an object or host value, which needs the
  coercions of \<^verbatim>\<open><\<close>, is read as not below 2.
\<close>

fun points_invalid :: "jv \<Rightarrow> bool" where
  "points_invalid (JArr ps) = (length ps < 2)"
| "points_invalid (JStr s) = (length s < 2)"
| "points_invalid (JObj ob) = False"
| "points_invalid JHost = False"
| "points_invalid v = (\<not> js_truthy v)"

text \<open>
  Rounding to the nearest double, ties to even: the number of bits of a positive
  integer, powers of two, the binary exponent of a non-zero rational, and the rounding
  of a rational to a multiple of the spacing of doubles at its exponent (53 significant
  bits; below \<open>2 ^ -1022\<close> the spacing is that of the subnormals). A result beyond the
  largest double, which the runtime makes an infinity, is left finite.
\<close>

function bit_length :: "int \<Rightarrow> int" where
  "bit_length n = (if n \<le> 0 then 0 else 1 + bit_length (n div 2))"
  by pat_completeness auto
termination
  by (relation "measure nat") auto

definition pow2 :: "int \<Rightarrow> rat" where
  "pow2 e = (if 0 \<le> e then 2 ^ nat e else 1 / 2 ^ nat (- e))"

definition floor_log2 :: "rat \<Rightarrow> int" where
  "floor_log2 x =
     (let e = bit_length (fst (quotient_of \<bar>x\<bar>)) - bit_length (snd (quotient_of \<bar>x\<bar>))
      in if pow2 e \<le> \<bar>x\<bar> then e else e - 1)"

definition round_half_even :: "rat \<Rightarrow> int" where
  "round_half_even y =
     (let n = \<lfloor>y\<rfloor>; d = y - of_int n
      in if d < 1 / 2 then n else if 1 / 2 < d then n + 1 else if even n then n else n + 1)"

definition round_to_double :: "rat \<Rightarrow> rat" where
  "round_to_double x =
     (if x = 0 then 0
      else (let q = pow2 (max (floor_log2 x) (- 1022) - 52)
            in of_int (round_half_even (x / q)) * q))"

text \<open>
  \<^verbatim>\<open>Math.floor(Math.random() * 2 ** 31)\<close>, for the value \<open>r\<close> that \<^verbatim>\<open>Math.random()\<close>
  returned. The product of a double and a power of two is exact.
\<close>

definition random31 :: "rat \<Rightarrow> jv" where
  "random31 r = JNum (of_int \<lfloor>r * 2 ^ 31\<rfloor>)"

text \<open>
  \<^verbatim>\<open>Math.max(0, Math.min(100, v * 100))\<close>. The product is a double: 0.07 * 100 is
  7.000000000000001. Where it would be an infinity the clamp gives 100 or 0, as it does
  for the finite value here. Both call sites pass a value the schema has validated as a
  number; on anything else the arithmetic is not modelled.
\<close>

definition scale_opacity :: "jv \<Rightarrow> jv" where
  "scale_opacity v =
     (case v of
        JNum r \<Rightarrow> JNum (max 0 (min 100 (round_to_double (r * 100))))
      | _ \<Rightarrow> JUndef)"

text \<open>
  \<^verbatim>\<open>(v || 0) + 1\<close>. The version of a stored element is a number: \<^verbatim>\<open>create_element\<close>
  writes 1 and \<^verbatim>\<open>update_element\<close> writes the value of this expression, over whatever
  the patch carries. The sum is a double, exact for every integer below \<open>2 ^ 53\<close>.
  On a falsy value the sum is 1 and on \<open>true\<close> it is 2; text concatenation (a string,
  array or object on the left) is not modelled.
\<close>

definition next_version :: "jv \<Rightarrow> jv" where
  "next_version v =
     (case js_or v (JNum 0) of
        JNum n \<Rightarrow> JNum (round_to_double (n + 1))
      | JBool b \<Rightarrow> JNum 2
      | _ \<Rightarrow> JUndef)"

section \<open>The schema library\<close>

text \<open>
  The handlers validate their arguments with zod 3. A schema is a parser: \<open>None\<close> is the
  \<^verbatim>\<open>ZodError\<close> that \<^verbatim>\<open>parse\<close> throws, \<open>Some v\<close> the parsed value.
\<close>

type_synonym schema = "jv \<Rightarrow> jv option"
type_synonym shape = "(string \<times> schema) list"

definition z_number :: schema where
  "z_number v = (case v of JNum n \<Rightarrow> Some v | _ \<Rightarrow> None)"

definition z_string :: schema where
  "z_string v = (case v of JStr s \<Rightarrow> Some v | _ \<Rightarrow> None)"

definition z_boolean :: schema where
  "z_boolean v = (case v of JBool b \<Rightarrow> Some v | _ \<Rightarrow> None)"

definition z_enum :: "string list \<Rightarrow> schema" where
  "z_enum vals v = (case v of JStr s \<Rightarrow> (if s \<in> set vals then Some v else None) | _ \<Rightarrow> None)"

definition z_optional :: "schema \<Rightarrow> schema" where
  "z_optional p v = (if v = JUndef then Some JUndef else p v)"

fun collect :: "'a option list \<Rightarrow> 'a list option" where
  "collect [] = Some []"
| "collect (None # xs) = None"
| "collect (Some y # xs) = (case collect xs of None \<Rightarrow> None | Some ys \<Rightarrow> Some (y # ys))"

definition z_array :: "schema \<Rightarrow> schema" where
  "z_array p v = (case v of JArr xs \<Rightarrow> map_option JArr (collect (map p xs)) | _ \<Rightarrow> None)"

text \<open>
  \<^verbatim>\<open>z.object(shape)\<close>: the input must be an object; each key of the shape is parsed, in
  the order of the shape, from the input's value for it (\<open>undefined\<close> when absent), and is
  set in the output when its parsed value is not \<open>undefined\<close> or the input has the key.
  Keys outside the shape are dropped, or with \<^verbatim>\<open>.passthrough()\<close> kept after the
  shape's.
\<close>

definition parse_shape :: "shape \<Rightarrow> obj \<Rightarrow> obj option" where
  "parse_shape sh a = collect (map (\<lambda>kp. map_option (Pair (fst kp)) (snd kp (obj_get a (fst kp)))) sh)"

definition z_object_gen :: "bool \<Rightarrow> shape \<Rightarrow> schema" where
  "z_object_gen pass sh v =
     (case v of
        JObj a \<Rightarrow>
          (case parse_shape sh a of
             None \<Rightarrow> None
           | Some kvs \<Rightarrow>
               Some (JObj (filter (\<lambda>kv. \<not> (snd kv = JUndef \<and> map_of a (fst kv) = None)) kvs
                           @ (if pass then filter (\<lambda>kv. map_of sh (fst kv) = None) a else []))))
      | _ \<Rightarrow> None)"

definition z_object :: "shape \<Rightarrow> schema" where
  "z_object sh = z_object_gen False sh"

definition z_passthrough :: "shape \<Rightarrow> schema" where
  "z_passthrough sh = z_object_gen True sh"

text \<open>\<^verbatim>\<open>.partial()\<close> makes every key optional; \<^verbatim>\<open>.extend(more)\<close> spreads \<open>more\<close> over the shape.\<close>

definition z_partial :: "shape \<Rightarrow> shape" where
  "z_partial sh = map (\<lambda>kp. (fst kp, z_optional (snd kp))) sh"

definition z_extend :: "shape \<Rightarrow> shape \<Rightarrow> shape" where
  "z_extend sh more = foldl (\<lambda>acc kp. AList.update (fst kp) (snd kp) acc) sh more"

section \<open>The schemas of index.js\<close>

text \<open>
  \<^verbatim>\<open>EXCALIDRAW_ELEMENT_TYPES\<close> comes from \<^verbatim>\<open>types.js\<close>; the list of its values is the
  parameter \<open>types\<close>.
\<close>

definition ElementSchema :: "string list \<Rightarrow> shape" where
  "ElementSchema types =
     [(''type'', z_enum types),
      (''x'', z_number),
      (''y'', z_number),
      (''width'', z_optional z_number),
      (''height'', z_optional z_number),
      (''points'', z_optional (z_array (z_object [(''x'', z_number), (''y'', z_number)]))),
      (''backgroundColor'', z_optional z_string),
      (''strokeColor'', z_optional z_string),
      (''strokeWidth'', z_optional z_number),
      (''roughness'', z_optional z_number),
      (''opacity'', z_optional z_number),
      (''text'', z_optional z_string),
      (''fontSize'', z_optional z_number),
      (''fontFamily'', z_optional z_number),
      (''locked'', z_optional z_boolean)]"

definition ElementIdSchema :: shape where
  "ElementIdSchema = [(''id'', z_string)]"

definition AlignElementsSchema :: shape where
  "AlignElementsSchema =
     [(''elementIds'', z_array z_string),
      (''alignment'', z_enum [''left'', ''center'', ''right'', ''top'', ''middle'', ''bottom''])]"

definition SaveSceneSchema :: shape where
  "SaveSceneSchema = [(''filename'', z_optional z_string)]"

section \<open>The server's state and what a handler reads from outside\<close>

text \<open>
  \<^verbatim>\<open>elements\<close> (from \<^verbatim>\<open>types.js\<close>) is used as a \<^verbatim>\<open>Map\<close> from id to element object; it
  is an association list in insertion order, written with \<open>AList.update\<close> as
  \<^verbatim>\<open>Map.set\<close> does (an existing key keeps its place). \<open>write_calls\<close> lists the calls
  made to \<^verbatim>\<open>fs.writeFile\<close>, each with the file name and the value that
  \<^verbatim>\<open>JSON.stringify\<close> was given. Log lines are left out.
\<close>

record sceneState =
  theme :: string
  viewBackgroundColor :: string
  viewport :: "rat \<times> rat \<times> rat"
  selectedElements :: "string list"
  groups :: "(string \<times> jv) list"

record server =
  elements :: "(string \<times> obj) list"
  scene :: sceneState
  write_calls :: "(string \<times> jv) list"

text \<open>
  One call of a handler reads: the element types of \<^verbatim>\<open>types.js\<close>, the id that
  \<^verbatim>\<open>generateId()\<close> returns, the clock, the values of \<^verbatim>\<open>Math.random()\<close> (by call
  number) and the outcome of \<^verbatim>\<open>fs.writeFile\<close> (\<open>None\<close> when it resolves, the
  message of the error when it rejects).
\<close>

record world =
  element_types :: "string list"
  generateId :: string
  Date_now :: rat
  Math_random :: "nat \<Rightarrow> rat"
  fs_writeFile :: "string \<Rightarrow> jv \<Rightarrow> string option"

text \<open>
  What a handler throws (the \<^verbatim>\<open>catch\<close> around the \<^verbatim>\<open>switch\<close> turns it into an
  error result) and what it returns: the text of the one content item, either the object
  given to \<^verbatim>\<open>JSON.stringify\<close> or a message, and the \<^verbatim>\<open>isError\<close> flag.
\<close>

datatype error = ZodError | TypeError | Error string

datatype text_content = Json jv | Text string

record tool_result =
  content_text :: text_content
  isError :: bool

type_synonym outcome = "(error + tool_result) \<times> server"

definition reply :: "text_content \<Rightarrow> tool_result" where
  "reply t = \<lparr>content_text = t, isError = False\<rparr>"

section \<open>create_element\<close>

text \<open>
  \<^verbatim>\<open>fontMap[k]\<close> on the literal \<^verbatim>\<open>{ "virgil": 1, "helvetica": 2, "cascadia": 3 }\<close>: a key
  the literal lacks is looked up on \<^verbatim>\<open>Object.prototype\<close>.
\<close>

definition Object_prototype_keys :: "string list" where
  "Object_prototype_keys =
     [''constructor'', ''__proto__'', ''hasOwnProperty'', ''isPrototypeOf'',
      ''propertyIsEnumerable'', ''toLocaleString'', ''toString'', ''valueOf'',
      ''__defineGetter__'', ''__defineSetter__'', ''__lookupGetter__'', ''__lookupSetter__'']"

definition fontMap :: "string \<Rightarrow> jv" where
  "fontMap k =
     (case map_of [(''virgil'', JNum 1), (''helvetica'', JNum 2), (''cascadia'', JNum 3)] k of
        Some v \<Rightarrow> v
      | None \<Rightarrow> (if k \<in> set Object_prototype_keys then JHost else JUndef))"

text \<open>Lines 294-297: a non-empty string \<^verbatim>\<open>fontFamily\<close> is replaced in the arguments.\<close>

definition create_font :: "jv \<Rightarrow> jv" where
  "create_font args =
     (case args of
        JObj a \<Rightarrow>
          (case obj_get a ''fontFamily'' of
             JStr s \<Rightarrow>
               (if js_truthy (JStr s)
                then JObj (obj_set a ''fontFamily'' (nullish (fontMap (toLowerCase s)) (JNum 1)))
                else args)
           | _ \<Rightarrow> args)
      | _ \<Rightarrow> args)"

text \<open>Lines 305-347: the element literal.\<close>

definition new_element :: "world \<Rightarrow> obj \<Rightarrow> obj" where
  "new_element w params =
     [(''id'', JStr (generateId w)),
      (''type'', obj_get params ''type''),
      (''x'', obj_get params ''x''),
      (''y'', obj_get params ''y''),
      (''width'', nullish (obj_get params ''width'') (JNum 10)),
      (''height'', nullish (obj_get params ''height'') (JNum 10)),
      (''seed'', random31 (Math_random w 0)),
      (''version'', JNum 1),
      (''versionNonce'', random31 (Math_random w 1)),
      (''isDeleted'', JBool False),
      (''locked'', nullish (obj_get params ''locked'') (JBool False)),
      (''angle'', nullish (obj_get params ''angle'') (JNum 0)),
      (''fillStyle'', nullish (obj_get params ''fillStyle'') (JStr ''hachure'')),
      (''strokeWidth'', nullish (obj_get params ''strokeWidth'') (JNum 1)),
      (''strokeStyle'', nullish (obj_get params ''strokeStyle'') (JStr ''solid'')),
      (''roughness'', nullish (obj_get params ''roughness'') (JNum 1)),
      (''opacity'',
         (if obj_get params ''opacity'' \<noteq> JUndef
          then scale_opacity (obj_get params ''opacity'') else JNum 100)),
      (''groupIds'', JArr []),
      (''frameId'', JNull),
      (''roundness'', nullish (obj_get params ''roundness'') JNull),
      (''boundElements'', JNull),
      (''link'', JNull),
      (''updated'', JNum (Date_now w)),
      (''strokeColor'', nullish (obj_get params ''strokeColor'') (JStr ''#000000'')),
      (''backgroundColor'', nullish (obj_get params ''backgroundColor'') (JStr ''transparent'')),
      (''text'', nullish (obj_get params ''text'') (JStr [])),
      (''fontSize'', nullish (obj_get params ''fontSize'') (JNum 20)),
      (''fontFamily'', nullish (obj_get params ''fontFamily'') (JNum 1)),
      (''textAlign'', nullish (obj_get params ''textAlign'') (JStr ''center'')),
      (''verticalAlign'', nullish (obj_get params ''verticalAlign'') (JStr ''middle'')),
      (''containerId'', JNull),
      (''originalText'', nullish (obj_get params ''text'') (JStr [])),
      (''points'', obj_get params ''points''),
      (''startBinding'', JNull),
      (''endBinding'', JNull),
      (''lastCommittedPoint'', JNull),
      (''startArrowhead'', JNull),
      (''endArrowhead'', JNull),
      (''fileId'', JNull),
      (''scale'', JArr [JNum 1, JNum 1]),
      (''status'', JStr ''saved'')]"

text \<open>\<^verbatim>\<open>[[0, 0], [el.width || 10, el.height || 0]]\<close>, at lines 350 and 589.\<close>

definition default_points :: "obj \<Rightarrow> jv" where
  "default_points el =
     JArr [JArr [JNum 0, JNum 0],
           JArr [js_or (obj_get el ''width'') (JNum 10), js_or (obj_get el ''height'') (JNum 0)]]"

definition is_linear :: "obj \<Rightarrow> bool" where
  "is_linear el = (obj_get el ''type'' = JStr ''arrow'' \<or> obj_get el ''type'' = JStr ''line'')"

text \<open>Lines 349-355.\<close>

definition synthesize_points :: "obj \<Rightarrow> obj" where
  "synthesize_points element =
     (if is_linear element \<and> points_invalid (obj_get element ''points'')
      then (let e1 = obj_set element ''points'' (default_points element)
            in if obj_get e1 ''type'' = JStr ''arrow''
               then (let e2 = obj_set e1 ''startArrowhead''
                                (nullish (obj_get e1 ''startArrowhead'') JNull)
                     in obj_set e2 ''endArrowhead''
                          (nullish (obj_get e2 ''endArrowhead'') (JStr ''arrow'')))
               else e1)
      else element)"

text \<open>Lines 357-359: keys whose value is \<open>undefined\<close> are deleted.\<close>

definition strip_undefined :: "obj \<Rightarrow> obj" where
  "strip_undefined element = filter (\<lambda>kv. snd kv \<noteq> JUndef) element"

definition create_element :: "world \<Rightarrow> jv \<Rightarrow> server \<Rightarrow> outcome" where
  "create_element w args st =
     (if args = JUndef \<or> args = JNull then (Inl TypeError, st)
      else
        (case z_passthrough (ElementSchema (element_types w)) (create_font args) of
           Some (JObj params) \<Rightarrow>
             (let element = strip_undefined (synthesize_points (new_element w params))
              in (Inr (reply (Json (JObj [(''id'', obj_get element ''id''),
                                          (''type'', obj_get element ''type''),
                                          (''created'', JBool True)]))),
                  st\<lparr>elements := AList.update (generateId w) element (elements st)\<rparr>))
         | _ \<Rightarrow> (Inl ZodError, st)))"

section \<open>update_element\<close>

text \<open>Lines 376-379. The schema of line 368 has run before.\<close>

definition update_font :: "obj \<Rightarrow> obj \<Rightarrow> obj" where
  "update_font existingElement updates =
     (case obj_get updates ''fontFamily'' of
        JStr s \<Rightarrow>
          obj_set updates ''fontFamily''
            (nullish (fontMap (toLowerCase s)) (obj_get existingElement ''fontFamily''))
      | _ \<Rightarrow> updates)"

text \<open>Lines 381-383.\<close>

definition update_opacity :: "obj \<Rightarrow> obj" where
  "update_opacity updates =
     (if obj_get updates ''opacity'' \<noteq> JUndef
      then obj_set updates ''opacity'' (scale_opacity (obj_get updates ''opacity''))
      else updates)"

text \<open>Lines 385-395: the merged object, without the keys \<^verbatim>\<open>createdAt\<close> and \<^verbatim>\<open>updatedAt\<close>.\<close>

definition potentialNewElement :: "world \<Rightarrow> obj \<Rightarrow> obj \<Rightarrow> obj" where
  "potentialNewElement w existingElement updates =
     obj_delete
       (obj_delete
          (obj_set
             (obj_set
                (obj_set (spread existingElement updates)
                   ''version'' (next_version (obj_get existingElement ''version'')))
                ''versionNonce'' (random31 (Math_random w 0)))
             ''updated'' (JNum (Date_now w)))
          ''createdAt'')
       ''updatedAt''"

definition not_found :: "string \<Rightarrow> error" where
  "not_found i = Error (''Element with ID '' @ i @ '' not found'')"

text \<open>Line 368: \<^verbatim>\<open>ElementSchema.partial().extend({ id: ElementIdSchema.shape.id }).passthrough()\<close>.\<close>

definition UpdateSchema :: "string list \<Rightarrow> shape" where
  "UpdateSchema types = z_extend (z_partial (ElementSchema types)) [(''id'', z_string)]"

definition update_element :: "world \<Rightarrow> jv \<Rightarrow> server \<Rightarrow> outcome" where
  "update_element w args st =
     (case z_passthrough (UpdateSchema (element_types w)) args of
        Some (JObj rawParams) \<Rightarrow>
          (case obj_get rawParams ''id'' of
             JStr i \<Rightarrow>
               (if \<not> js_truthy (JStr i) then (Inl (Error ''Element ID is required''), st)
                else
                  (case map_of (elements st) i of
                     None \<Rightarrow> (Inl (not_found i), st)
                   | Some existingElement \<Rightarrow>
                       (let updates = update_opacity
                                        (update_font existingElement (obj_delete rawParams ''id''));
                            el = potentialNewElement w existingElement updates
                        in (Inr (reply (Json (JObj [(''id'', obj_get el ''id''),
                                                    (''updated'', JBool True),
                                                    (''version'', obj_get el ''version'')]))),
                            st\<lparr>elements := AList.update i el (elements st)\<rparr>))))
           | _ \<Rightarrow> (Inl ZodError, st))
      | _ \<Rightarrow> (Inl ZodError, st))"

section \<open>delete_element\<close>

definition delete_element :: "jv \<Rightarrow> server \<Rightarrow> outcome" where
  "delete_element args st =
     (case z_object ElementIdSchema args of
        Some (JObj params) \<Rightarrow>
          (case obj_get params ''id'' of
             JStr i \<Rightarrow>
               (if map_of (elements st) i = None then (Inl (not_found i), st)
                else (Inr (reply (Json (JObj [(''id'', JStr i), (''deleted'', JBool True)]))),
                      st\<lparr>elements := AList.delete i (elements st)\<rparr>))
           | _ \<Rightarrow> (Inl ZodError, st))
      | _ \<Rightarrow> (Inl ZodError, st))"

section \<open>align_elements\<close>

text \<open>
  Lines 510-521. The handler parses its arguments, logs them and answers; its comment
  reads "Implementation would align elements based on the specified alignment".
\<close>

definition align_elements :: "jv \<Rightarrow> server \<Rightarrow> outcome" where
  "align_elements args st =
     (case z_object AlignElementsSchema args of
        Some (JObj params) \<Rightarrow>
          (Inr (reply (Json (JObj [(''aligned'', JBool True),
                                   (''elementIds'', obj_get params ''elementIds''),
                                   (''alignment'', obj_get params ''alignment'')]))),
           st)
      | _ \<Rightarrow> (Inl ZodError, st))"

section \<open>save_scene\<close>

text \<open>Lines 586-592: the repair writes to the stored element itself.\<close>

definition repair_points :: "obj \<Rightarrow> obj" where
  "repair_points el =
     (if is_linear el \<and> points_invalid (obj_get el ''points'')
      then obj_set el ''points'' (default_points el)
      else el)"

definition appState :: "sceneState \<Rightarrow> jv" where
  "appState sc =
     JObj [(''viewBackgroundColor'', JStr (viewBackgroundColor sc)),
           (''scrollX'', JNum (fst (viewport sc))),
           (''scrollY'', JNum (fst (snd (viewport sc)))),
           (''zoom'', JObj [(''value'', JNum (snd (snd (viewport sc))))]),
           (''selectedElementIds'',
              JObj (foldl (\<lambda>acc i. obj_set acc i (JBool True)) [] (selectedElements sc))),
           (''gridSize'', JNull),
           (''zenModeEnabled'', JBool False),
           (''editingGroupId'', JNull),
           (''theme'', JStr (theme sc)),
           (''currentItemStrokeColor'', JStr ''#000000''),
           (''currentItemBackgroundColor'', JStr ''transparent''),
           (''currentItemFillStyle'', JStr ''hachure''),
           (''currentItemStrokeWidth'', JNum 1),
           (''currentItemStrokeStyle'', JStr ''solid''),
           (''currentItemRoughness'', JNum 1),
           (''currentItemOpacity'', JNum 100),
           (''currentItemFontFamily'', JNum 1),
           (''currentItemFontSize'', JNum 20),
           (''currentItemTextAlign'', JStr ''center''),
           (''currentItemStartArrowhead'', JNull),
           (''currentItemEndArrowhead'', JStr ''arrow'')]"

definition sceneData :: "obj list \<Rightarrow> sceneState \<Rightarrow> jv" where
  "sceneData elementsToSave sc =
     JObj [(''type'', JStr ''excalidraw''),
           (''version'', JNum 2),
           (''source'', JStr ''mcp-server''),
           (''elements'', JArr (map JObj elementsToSave)),
           (''appState'', appState sc),
           (''files'', JObj [])]"

definition save_scene :: "world \<Rightarrow> jv \<Rightarrow> server \<Rightarrow> outcome" where
  "save_scene w args st =
     (case z_object SaveSceneSchema (js_or args (JObj [])) of
        Some (JObj params) \<Rightarrow>
          (case js_or (obj_get params ''filename'') (JStr ''mcp_scene.excalidraw'') of
             JStr filename \<Rightarrow>
               (if \<not> endsWith filename ''.excalidraw''
                then (Inl (Error ''Filename must end with .excalidraw''), st)
                else
                  (let repaired = map (\<lambda>kv. (fst kv, repair_points (snd kv))) (elements st);
                       doc = sceneData (map snd repaired) (scene st);
                       st' = st\<lparr>elements := repaired,
                                write_calls := write_calls st @ [(filename, doc)]\<rparr>
                   in (case fs_writeFile w filename doc of
                         None \<Rightarrow>
                           (Inr (reply (Text (''Scene saved successfully to '' @ filename))), st')
                       | Some message \<Rightarrow>
                           (Inr \<lparr>content_text = Text (''Error saving scene: '' @ message), isError = True\<rparr>,
                            st'))))
           | _ \<Rightarrow> (Inl ZodError, st))
      | _ \<Rightarrow> (Inl ZodError, st))"

section \<open>Observations and example inputs\<close>

text \<open>\<^verbatim>\<open>elements.get(i)[k]\<close>, \<open>undefined\<close> when the repository has no element \<open>i\<close>.\<close>

definition element_field :: "server \<Rightarrow> string \<Rightarrow> string \<Rightarrow> jv" where
  "element_field st i k =
     (case map_of (elements st) i of None \<Rightarrow> JUndef | Some el \<Rightarrow> obj_get el k)"







text \<open>Lines 21-27, and the repository before any call.\<close>

definition initial_sceneState :: sceneState where
  "initial_sceneState =
     \<lparr>theme = ''light'', viewBackgroundColor = ''#ffffff'', viewport = (0, 0, 1),
      selectedElements = [], groups = []\<rparr>"

definition initial_server :: server where
  "initial_server = \<lparr>elements = [], scene = initial_sceneState, write_calls = []\<rparr>"

text \<open>
  A world for the examples: \<^verbatim>\<open>generateId()\<close> returns \<open>i\<close>, the clock reads 1000,
  \<^verbatim>\<open>Math.random()\<close> returns 0.5 and then 0.25, and a write fails with \<open>failure\<close>
  when that is a message.
\<close>

definition example_world :: "string \<Rightarrow> string option \<Rightarrow> world" where
  "example_world i failure =
     \<lparr>element_types = [''rectangle'', ''ellipse'', ''diamond'', ''text'', ''arrow'', ''line''],
      generateId = i,
      Date_now = 1000,
      Math_random = (\<lambda>n. if n = 0 then 1 / 2 else 1 / 4),
      fs_writeFile = (\<lambda>filename data. failure)\<rparr>"

definition rectangle_args :: "rat \<Rightarrow> jv" where
  "rectangle_args x0 =
     JObj [(''type'', JStr ''rectangle''), (''x'', JNum x0), (''y'', JNum 0),
           (''width'', JNum 20), (''height'', JNum 20)]"

text \<open>The repository after creating a rectangle \<open>a\<close> at x = 10, and then \<open>b\<close> at x = 50.\<close>

definition one_rectangle :: server where
  "one_rectangle = snd (create_element (example_world ''a'' None) (rectangle_args 10) initial_server)"

definition two_rectangles :: server where
  "two_rectangles = snd (create_element (example_world ''b'' None) (rectangle_args 50) one_rectangle)"

definition align_args :: "string list \<Rightarrow> jv" where
  "align_args ids = JObj [(''elementIds'', JArr (map JStr ids)), (''alignment'', JStr ''left'')]"

text \<open>A line of width 0, an arrow with two points, an arrow with none.\<close>

definition vertical_line_args :: jv where
  "vertical_line_args =
     JObj [(''type'', JStr ''line''), (''x'', JNum 1), (''y'', JNum 2),
           (''width'', JNum 0), (''height'', JNum 5)]"

definition two_points :: jv where
  "two_points =
     JArr [JObj [(''x'', JNum 0), (''y'', JNum 0)], JObj [(''x'', JNum 5), (''y'', JNum 5)]]"


definition arrow_args :: "jv \<Rightarrow> jv" where
  "arrow_args pts =
     JObj [(''type'', JStr ''arrow''), (''x'', JNum 0), (''y'', JNum 0), (''points'', pts)]"

definition bare_arrow_args :: jv where
  "bare_arrow_args = JObj [(''type'', JStr ''arrow''), (''x'', JNum 0), (''y'', JNum 0)]"



text \<open>Create arguments with an opacity; arguments that carry the system's own fields.\<close>

definition opacity_args :: "rat \<Rightarrow> jv" where
  "opacity_args v =
     JObj [(''type'', JStr ''rectangle''), (''x'', JNum 1), (''y'', JNum 2), (''opacity'', JNum v)]"

definition plain_args :: jv where
  "plain_args = JObj [(''type'', JStr ''rectangle''), (''x'', JNum 1), (''y'', JNum 2)]"

definition forged_create_args :: jv where
  "forged_create_args =
     JObj [(''type'', JStr ''rectangle''), (''x'', JNum 1), (''y'', JNum 2),
           (''seed'', JNum 7), (''version'', JNum 9), (''versionNonce'', JNum 8),
           (''updated'', JNum 5)]"

definition forged_update_args :: obj where
  "forged_update_args =
     [(''id'', JStr ''a''), (''version'', JNum 99), (''versionNonce'', JNum 5),
      (''updated'', JNum 1)]"

text \<open>Arguments with a font name, for a create and for an update of rectangle \<open>a\<close>.\<close>

definition font_create_args :: "string \<Rightarrow> jv" where
  "font_create_args name =
     JObj [(''type'', JStr ''text''), (''x'', JNum 1), (''y'', JNum 2), (''fontFamily'', JStr name)]"

definition font_update_args :: "string \<Rightarrow> jv" where
  "font_update_args name = JObj [(''id'', JStr ''a''), (''fontFamily'', JStr name)]"

text \<open>
  Every stored element has a number as its version. The handlers keep this true
  (lemmas \<open>versions_numeric_create\<close> to \<open>versions_numeric_save\<close> below), so it holds
  in every repository they build from \<open>initial_server\<close>.
\<close>

fun is_number :: "jv \<Rightarrow> bool" where
  "is_number (JNum n) = True"
| "is_number v = False"

definition versions_numeric :: "server \<Rightarrow> bool" where
  "versions_numeric st = list_all (\<lambda>kv. is_number (obj_get (snd kv) ''version'')) (elements st)"

text \<open>
  A later world, whose clock reads 2000 and whose random value is 0.75, and a patch for
  rectangle \<open>a\<close> that carries timestamps and values for the system's fields.
\<close>

definition later_world :: world where
  "later_world =
     \<lparr>element_types = [''rectangle'', ''ellipse'', ''diamond'', ''text'', ''arrow'', ''line''],
      generateId = ''z'',
      Date_now = 2000,
      Math_random = (\<lambda>n. 3 / 4),
      fs_writeFile = (\<lambda>filename data. None)\<rparr>"

definition stamped_update_args :: obj where
  "stamped_update_args =
     [(''id'', JStr ''a''), (''x'', JNum 5), (''createdAt'', JNum 3), (''updatedAt'', JNum 4),
      (''version'', JNum 77), (''versionNonce'', JNum 5), (''updated'', JNum 1)]"

section \<open>Objects and association lists\<close>

lemma obj_get_obj_set: "obj_get (obj_set ob k v) k' = (if k' = k then v else obj_get ob k')"
  by (simp add: obj_get_def obj_set_def update_conv')

lemma obj_get_obj_delete: "obj_get (obj_delete ob k) k' = (if k' = k then JUndef else obj_get ob k')"
  by (simp add: obj_get_def obj_delete_def delete_conv')

lemma map_of_obj_set: "map_of (obj_set ob k v) = (map_of ob)(k \<mapsto> v)"
  by (simp add: obj_set_def update_conv')

lemma map_of_obj_delete: "map_of (obj_delete ob k) = (map_of ob)(k := None)"
  by (simp add: obj_delete_def delete_conv')

lemma map_of_spread_other: "k \<notin> fst ` set b \<Longrightarrow> map_of (spread a b) k = map_of a k"
  unfolding spread_def by (induction b arbitrary: a) (auto simp: map_of_obj_set)

lemma obj_get_spread_other: "map_of b k = None \<Longrightarrow> obj_get (spread a b) k = obj_get a k"
  by (simp add: obj_get_def map_of_spread_other map_of_eq_None_iff)

lemma map_of_spread:
  "distinct (map fst b) \<Longrightarrow>
   map_of (spread a b) k = (case map_of b k of None \<Rightarrow> map_of a k | Some v \<Rightarrow> Some v)"
proof (induction b arbitrary: a)
  case Nil
  then show ?case by (simp add: spread_def)
next
  case (Cons kv b)
  obtain k0 v0 where kv: "kv = (k0, v0)" by (cases kv)
  have step: "spread a (kv # b) = spread (obj_set a k0 v0) b"
    by (simp add: spread_def kv)
  from Cons.prems kv have "map_of b k0 = None"
    by (simp add: map_of_eq_None_iff)
  moreover from Cons.prems have "distinct (map fst b)" by simp
  ultimately show ?case
    unfolding step using Cons.IH[of "obj_set a k0 v0"]
    by (cases "k = k0") (simp_all add: kv map_of_obj_set split: option.splits)
qed

lemma obj_get_spread:
  "distinct (map fst b) \<Longrightarrow>
   obj_get (spread a b) k = (case map_of b k of None \<Rightarrow> obj_get a k | Some v \<Rightarrow> v)"
  by (simp add: obj_get_def map_of_spread split: option.splits)

lemma collect_Some_length: "collect xs = Some ys \<Longrightarrow> length ys = length xs"
  by (induction xs arbitrary: ys rule: collect.induct) (auto split: option.splits)

lemma collect_Some_nth: "collect xs = Some ys \<Longrightarrow> i < length xs \<Longrightarrow> xs ! i = Some (ys ! i)"
proof (induction xs arbitrary: ys i rule: collect.induct)
  case (3 y xs)
  then show ?case by (cases i) (auto split: option.splits)
qed auto

lemma collect_map_id: "(\<And>x. x \<in> set xs \<Longrightarrow> f x = Some x) \<Longrightarrow> collect (map f xs) = Some xs"
  by (induction xs) auto

lemma parse_shape_keys: "parse_shape sh a = Some kvs \<Longrightarrow> map fst kvs = map fst sh"
  unfolding parse_shape_def
proof (induction sh arbitrary: kvs)
  case Nil
  then show ?case by simp
next
  case (Cons kp sh)
  then show ?case by (cases "snd kp (obj_get a (fst kp))") (auto split: option.splits)
qed

lemma parse_shape_value:
  "parse_shape sh a = Some kvs \<Longrightarrow> distinct (map fst sh) \<Longrightarrow> (k, p) \<in> set sh
   \<Longrightarrow> \<exists>v. p (obj_get a k) = Some v \<and> map_of kvs k = Some v"
  unfolding parse_shape_def
proof (induction sh arbitrary: kvs)
  case Nil
  then show ?case by simp
next
  case (Cons kp sh)
  obtain k0 p0 where kp: "kp = (k0, p0)" by (cases kp)
  from Cons.prems(1) obtain v0 rest where
    v0: "p0 (obj_get a k0) = Some v0" and
    rest: "collect (map (\<lambda>kp. map_option (Pair (fst kp)) (snd kp (obj_get a (fst kp)))) sh) = Some rest" and
    kvs: "kvs = (k0, v0) # rest"
    by (cases "p0 (obj_get a k0)") (auto simp: kp split: option.splits)
  show ?case
  proof (cases "(k, p) = (k0, p0)")
    case True
    then show ?thesis using v0 kvs by simp
  next
    case False
    with Cons.prems(3) kp have mem: "(k, p) \<in> set sh" by auto
    with Cons.prems(2) kp have "k \<noteq> k0" by force
    moreover from Cons.IH[OF rest _ mem] Cons.prems(2)
    obtain v where "p (obj_get a k) = Some v" "map_of rest k = Some v" by auto
    ultimately show ?thesis using kvs by simp
  qed
qed


lemma map_of_filter_key:
  "map_of (filter (\<lambda>kv. Q (fst kv)) xs) k = (if Q k then map_of xs k else None)"
  by (induction xs) auto

lemma map_of_filter_distinct:
  "distinct (map fst xs) \<Longrightarrow> map_of xs k = Some v \<Longrightarrow>
   map_of (filter P xs) k = (if P (k, v) then Some v else None)"
proof (induction xs)
  case Nil
  then show ?case by simp
next
  case (Cons x xs)
  obtain k0 v0 where x: "x = (k0, v0)" by (cases x)
  show ?case
  proof (cases "k = k0")
    case True
    with Cons.prems x have "v0 = v" and "map_of xs k = None"
      by (auto simp: map_of_eq_None_iff)
    then have "map_of (filter P xs) k = None"
      by (auto simp: map_of_eq_None_iff)
    with True x \<open>v0 = v\<close> show ?thesis by simp
  next
    case False
    with Cons x show ?thesis by simp
  qed
qed

lemma z_object_gen_SomeD:
  assumes "z_object_gen pass sh v = Some r"
  obtains a kvs where "v = JObj a" and "parse_shape sh a = Some kvs"
    and "r = JObj (filter (\<lambda>kv. \<not> (snd kv = JUndef \<and> map_of a (fst kv) = None)) kvs
                   @ (if pass then filter (\<lambda>kv. map_of sh (fst kv) = None) a else []))"
  using assms unfolding z_object_gen_def by (auto split: jv.splits option.splits)

lemma z_object_gen_shape:
  assumes "z_object_gen pass sh (JObj a) = Some (JObj ps)"
    and "distinct (map fst sh)" and "(k, p) \<in> set sh"
  shows "p (obj_get a k) = Some (obj_get ps k)"
proof -
  from assms(1) obtain kvs where kvs: "parse_shape sh a = Some kvs"
    and ps: "ps = filter (\<lambda>kv. \<not> (snd kv = JUndef \<and> map_of a (fst kv) = None)) kvs
                  @ (if pass then filter (\<lambda>kv. map_of sh (fst kv) = None) a else [])"
    by (auto elim!: z_object_gen_SomeD)
  from parse_shape_value[OF kvs assms(2,3)] obtain v
    where v: "p (obj_get a k) = Some v" and look: "map_of kvs k = Some v" by auto
  have dk: "distinct (map fst kvs)"
    using parse_shape_keys[OF kvs] assms(2) by simp
  have insh: "map_of sh k \<noteq> None"
    using weak_map_of_SomeI[OF assms(3)] by auto
  have extra: "map_of (if pass then filter (\<lambda>kv. map_of sh (fst kv) = None) a else []) k = None"
    using insh map_of_filter_key[of "\<lambda>k. map_of sh k = None" a k] by auto
  have "obj_get ps k = v"
  proof (cases "v \<noteq> JUndef \<or> map_of a k \<noteq> None")
    case True
    then have "map_of (filter (\<lambda>kv. \<not> (snd kv = JUndef \<and> map_of a (fst kv) = None)) kvs) k = Some v"
      using map_of_filter_distinct[OF dk look] by simp
    then show ?thesis by (simp add: ps obj_get_def map_add_def)
  next
    case False
    then have "map_of (filter (\<lambda>kv. \<not> (snd kv = JUndef \<and> map_of a (fst kv) = None)) kvs) k = None"
      using map_of_filter_distinct[OF dk look] by simp
    with extra False show ?thesis by (simp add: ps obj_get_def map_add_def)
  qed
  with v show ?thesis by simp
qed

lemma z_passthrough_extra:
  assumes "z_passthrough sh (JObj a) = Some (JObj ps)" and "map_of sh k = None"
  shows "map_of ps k = map_of a k"
proof -
  from assms(1) obtain kvs where kvs: "parse_shape sh a = Some kvs"
    and ps: "ps = filter (\<lambda>kv. \<not> (snd kv = JUndef \<and> map_of a (fst kv) = None)) kvs
                  @ filter (\<lambda>kv. map_of sh (fst kv) = None) a"
    unfolding z_passthrough_def by (auto elim!: z_object_gen_SomeD)
  have "k \<notin> fst ` set kvs"
    using parse_shape_keys[OF kvs] assms(2)
    by (metis list.set_map map_of_eq_None_iff)
  then have "map_of (filter (\<lambda>kv. \<not> (snd kv = JUndef \<and> map_of a (fst kv) = None)) kvs) k = None"
    by (auto simp: map_of_eq_None_iff)
  then show ?thesis
    using assms(2) map_of_filter_key[of "\<lambda>k. map_of sh k = None" a k]
    by (simp add: ps map_add_def split: option.splits)
qed

lemma z_passthrough_distinct:
  assumes "z_passthrough sh (JObj a) = Some (JObj ps)"
    and "distinct (map fst sh)" and "distinct (map fst a)"
  shows "distinct (map fst ps)"
proof -
  from assms(1) obtain kvs where kvs: "parse_shape sh a = Some kvs"
    and ps: "ps = filter (\<lambda>kv. \<not> (snd kv = JUndef \<and> map_of a (fst kv) = None)) kvs
                  @ filter (\<lambda>kv. map_of sh (fst kv) = None) a"
    unfolding z_passthrough_def by (auto elim!: z_object_gen_SomeD)
  have k1: "distinct (map fst kvs)"
    using parse_shape_keys[OF kvs] assms(2) by simp
  have keys: "fst ` set kvs = fst ` set sh"
    using parse_shape_keys[OF kvs] by (metis list.set_map)
  have disj: "fst ` set (filter (\<lambda>kv. \<not> (snd kv = JUndef \<and> map_of a (fst kv) = None)) kvs)
              \<inter> fst ` set (filter (\<lambda>kv. map_of sh (fst kv) = None) a) = {}"
  proof -
    have "\<And>x. x \<in> fst ` set (filter (\<lambda>kv. map_of sh (fst kv) = None) a) \<Longrightarrow> x \<notin> fst ` set sh"
      by (auto simp: map_of_eq_None_iff)
    moreover have "\<And>x. x \<in> fst ` set (filter (\<lambda>kv. \<not> (snd kv = JUndef \<and> map_of a (fst kv) = None)) kvs)
                   \<Longrightarrow> x \<in> fst ` set sh"
      using keys by force
    ultimately show ?thesis by blast
  qed
  show ?thesis
    unfolding ps using k1 assms(3) disj
    by (simp add: distinct_map_filter)
qed

lemma z_passthrough_obj:
  assumes "z_passthrough sh v = Some r"
  obtains a ps where "v = JObj a" and "r = JObj ps"
  using assms unfolding z_passthrough_def by (auto elim!: z_object_gen_SomeD)

section \<open>What create_element stores\<close>

lemma distinct_ElementSchema: "distinct (map fst (ElementSchema types))"
  by (simp add: ElementSchema_def)

lemma distinct_new_element: "distinct (map fst (new_element w params))"
  by (simp add: new_element_def)

lemma obj_get_strip_undefined:
  "distinct (map fst el) \<Longrightarrow> obj_get (strip_undefined el) k = obj_get el k"
proof (induction el)
  case Nil
  then show ?case by (simp add: strip_undefined_def)
next
  case (Cons kv el)
  obtain k0 v0 where kv: "kv = (k0, v0)" by (cases kv)
  from Cons.prems kv have "map_of el k0 = None" by (simp add: map_of_eq_None_iff)
  then have "map_of (filter (\<lambda>kv. snd kv \<noteq> JUndef) el) k0 = None"
    by (auto simp: map_of_eq_None_iff)
  with Cons kv show ?case
    by (auto simp: strip_undefined_def obj_get_def)
qed

lemma distinct_obj_set: "distinct (map fst el) \<Longrightarrow> distinct (map fst (obj_set el k v))"
  by (simp add: obj_set_def distinct_update)

lemma distinct_obj_delete: "distinct (map fst el) \<Longrightarrow> distinct (map fst (obj_delete el k))"
  by (simp add: obj_delete_def distinct_delete)

lemma distinct_synthesize_points:
  "distinct (map fst el) \<Longrightarrow> distinct (map fst (synthesize_points el))"
  by (simp add: synthesize_points_def Let_def distinct_obj_set)

lemma obj_get_synthesize_points_other:
  "k \<noteq> ''points'' \<Longrightarrow> k \<noteq> ''startArrowhead'' \<Longrightarrow> k \<noteq> ''endArrowhead'' \<Longrightarrow>
   obj_get (synthesize_points el) k = obj_get el k"
  by (simp add: synthesize_points_def Let_def obj_get_obj_set)

text \<open>The element that a successful create stores.\<close>

lemma stored_field:
  "obj_get (strip_undefined (synthesize_points (new_element w params))) k
   = obj_get (synthesize_points (new_element w params)) k"
  by (simp add: obj_get_strip_undefined distinct_synthesize_points distinct_new_element)

lemma create_element_InrD:
  assumes "fst (create_element w args st) = Inr r"
  obtains a params where "args = JObj a"
    and "z_passthrough (ElementSchema (element_types w)) (create_font (JObj a)) = Some (JObj params)"
    and "snd (create_element w args st) =
         st\<lparr>elements := AList.update (generateId w)
                 (strip_undefined (synthesize_points (new_element w params))) (elements st)\<rparr>"
proof -
  from assms have nn: "args \<noteq> JUndef" "args \<noteq> JNull"
    by (auto simp: create_element_def)
  from assms nn obtain params where
    p: "z_passthrough (ElementSchema (element_types w)) (create_font args) = Some (JObj params)"
    by (auto simp: create_element_def split: option.splits jv.splits)
  then obtain a' where "create_font args = JObj a'"
    by (auto elim: z_passthrough_obj)
  then obtain a where a: "args = JObj a"
    by (cases args) (auto simp: create_font_def split: jv.splits if_splits)
  show ?thesis
    using that[OF a] p a nn by (simp add: create_element_def Let_def)
qed

lemma create_element_field:
  assumes "fst (create_element w args st) = Inr r"
  obtains a params where "args = JObj a"
    and "z_passthrough (ElementSchema (element_types w)) (create_font (JObj a)) = Some (JObj params)"
    and "\<forall>k. element_field (snd (create_element w args st)) (generateId w) k
              = obj_get (synthesize_points (new_element w params)) k"
proof -
  from assms obtain a params where a: "args = JObj a"
    and p: "z_passthrough (ElementSchema (element_types w)) (create_font (JObj a)) = Some (JObj params)"
    and s: "snd (create_element w args st) =
         st\<lparr>elements := AList.update (generateId w)
                 (strip_undefined (synthesize_points (new_element w params))) (elements st)\<rparr>"
    by (rule create_element_InrD)
  have "\<forall>k. element_field (snd (create_element w args st)) (generateId w) k
              = obj_get (synthesize_points (new_element w params)) k"
    by (simp add: s element_field_def update_conv' stored_field)
  with a p show ?thesis by (rule that)
qed

lemma create_font_other:
  "create_font (JObj a) = JObj a' \<Longrightarrow> k \<noteq> ''fontFamily'' \<Longrightarrow> obj_get a' k = obj_get a k"
  by (auto simp: create_font_def obj_get_obj_set split: jv.splits if_splits)

lemma create_font_obj: "\<exists>a'. create_font (JObj a) = JObj a'"
  by (auto simp: create_font_def split: jv.splits)

section \<open>What update_element stores\<close>

lemma UpdateSchema_eq:
  "UpdateSchema types =
     [(''type'', z_optional (z_enum types)),
      (''x'', z_optional z_number),
      (''y'', z_optional z_number),
      (''width'', z_optional (z_optional z_number)),
      (''height'', z_optional (z_optional z_number)),
      (''points'', z_optional (z_optional (z_array (z_object [(''x'', z_number), (''y'', z_number)])))),
      (''backgroundColor'', z_optional (z_optional z_string)),
      (''strokeColor'', z_optional (z_optional z_string)),
      (''strokeWidth'', z_optional (z_optional z_number)),
      (''roughness'', z_optional (z_optional z_number)),
      (''opacity'', z_optional (z_optional z_number)),
      (''text'', z_optional (z_optional z_string)),
      (''fontSize'', z_optional (z_optional z_number)),
      (''fontFamily'', z_optional (z_optional z_number)),
      (''locked'', z_optional (z_optional z_boolean)),
      (''id'', z_string)]"
  by (simp add: UpdateSchema_def z_extend_def z_partial_def ElementSchema_def)

lemma distinct_UpdateSchema: "distinct (map fst (UpdateSchema types))"
  by (simp add: UpdateSchema_eq)

lemma z_optional_idem: "z_optional (z_optional p) = z_optional p"
  by (rule ext) (simp add: z_optional_def)

lemma z_optional_number_D:
  "z_optional z_number v = Some v' \<Longrightarrow> v' = v \<and> (v = JUndef \<or> (\<exists>n. v = JNum n))"
  by (auto simp: z_optional_def z_number_def split: jv.splits if_splits)

lemma z_string_D: "z_string v = Some v' \<Longrightarrow> v' = v \<and> (\<exists>s. v = JStr s)"
  by (auto simp: z_string_def split: jv.splits)

text \<open>What a successful parse of the update arguments gives.\<close>

lemma update_parse_id:
  assumes "z_passthrough (UpdateSchema types) (JObj a) = Some (JObj rawParams)"
  shows "obj_get rawParams ''id'' = obj_get a ''id'' \<and> (\<exists>s. obj_get a ''id'' = JStr s)"
proof -
  have "(''id'', z_string) \<in> set (UpdateSchema types)" by (simp add: UpdateSchema_eq)
  from z_object_gen_shape[OF assms[unfolded z_passthrough_def] distinct_UpdateSchema this]
  show ?thesis by (auto dest: z_string_D)
qed

lemma update_parse_opacity:
  assumes "z_passthrough (UpdateSchema types) (JObj a) = Some (JObj rawParams)"
  shows "obj_get rawParams ''opacity'' = obj_get a ''opacity''
         \<and> (obj_get a ''opacity'' = JUndef \<or> (\<exists>n. obj_get a ''opacity'' = JNum n))"
proof -
  have "(''opacity'', z_optional z_number) \<in> set (UpdateSchema types)"
    by (simp add: UpdateSchema_eq z_optional_idem)
  from z_object_gen_shape[OF assms[unfolded z_passthrough_def] distinct_UpdateSchema this]
  show ?thesis by (auto dest: z_optional_number_D)
qed

lemma update_parse_fontFamily:
  assumes "z_passthrough (UpdateSchema types) (JObj a) = Some (JObj rawParams)"
  shows "obj_get rawParams ''fontFamily'' = obj_get a ''fontFamily''
         \<and> (obj_get a ''fontFamily'' = JUndef \<or> (\<exists>n. obj_get a ''fontFamily'' = JNum n))"
proof -
  have "(''fontFamily'', z_optional z_number) \<in> set (UpdateSchema types)"
    by (simp add: UpdateSchema_eq z_optional_idem)
  from z_object_gen_shape[OF assms[unfolded z_passthrough_def] distinct_UpdateSchema this]
  show ?thesis by (auto dest: z_optional_number_D)
qed

lemma update_font_parsed:
  assumes "z_passthrough (UpdateSchema types) (JObj a) = Some (JObj rawParams)"
  shows "update_font old (obj_delete rawParams ''id'') = obj_delete rawParams ''id''"
  using update_parse_fontFamily[OF assms]
  by (auto simp: update_font_def obj_get_obj_delete)

lemma update_element_parsed:
  assumes p: "z_passthrough (UpdateSchema (element_types w)) (JObj a) = Some (JObj rawParams)"
    and i: "obj_get a ''id'' = JStr i" and ne: "i \<noteq> []"
    and old: "map_of (elements st) i = Some old"
  shows "update_element w (JObj a) st =
     (Inr (reply (Json (JObj
        [(''id'', obj_get (potentialNewElement w old (update_opacity (obj_delete rawParams ''id''))) ''id''),
         (''updated'', JBool True),
         (''version'', obj_get (potentialNewElement w old (update_opacity (obj_delete rawParams ''id''))) ''version'')]))),
      st\<lparr>elements := AList.update i
            (potentialNewElement w old (update_opacity (obj_delete rawParams ''id''))) (elements st)\<rparr>)"
proof -
  have "obj_get rawParams ''id'' = JStr i"
    using update_parse_id[OF p] i by simp
  then show ?thesis
    using p ne old by (simp add: update_element_def Let_def update_font_parsed[OF p])
qed

lemma update_element_InrD:
  assumes "fst (update_element w args st) = Inr r"
  obtains a rawParams i old where "args = JObj a"
    and "z_passthrough (UpdateSchema (element_types w)) (JObj a) = Some (JObj rawParams)"
    and "obj_get a ''id'' = JStr i" and "i \<noteq> []" and "map_of (elements st) i = Some old"
proof -
  from assms obtain rp where rp: "z_passthrough (UpdateSchema (element_types w)) args = Some rp"
    by (auto simp: update_element_def split: option.splits)
  then obtain a rawParams where a: "args = JObj a" and r: "rp = JObj rawParams"
    by (auto elim: z_passthrough_obj)
  from update_parse_id[OF rp[unfolded a r]] obtain i where
    i: "obj_get a ''id'' = JStr i" "obj_get rawParams ''id'' = JStr i" by auto
  from assms rp a r i have ne: "i \<noteq> []"
    by (auto simp: update_element_def split: if_splits)
  from assms rp a r i ne obtain old where "map_of (elements st) i = Some old"
    by (auto simp: update_element_def split: option.splits)
  with a rp r i ne show ?thesis using that by blast
qed

lemma potentialNewElement_fields:
  "obj_get (potentialNewElement w old ups) ''version'' = next_version (obj_get old ''version'')"
  "obj_get (potentialNewElement w old ups) ''versionNonce'' = random31 (Math_random w 0)"
  "obj_get (potentialNewElement w old ups) ''updated'' = JNum (Date_now w)"
  "map_of (potentialNewElement w old ups) ''createdAt'' = None"
  "map_of (potentialNewElement w old ups) ''updatedAt'' = None"
  by (simp_all add: potentialNewElement_def obj_get_obj_delete obj_get_obj_set
        map_of_obj_delete map_of_obj_set)

lemma potentialNewElement_other:
  "k \<noteq> ''version'' \<Longrightarrow> k \<noteq> ''versionNonce'' \<Longrightarrow> k \<noteq> ''updated'' \<Longrightarrow>
   k \<noteq> ''createdAt'' \<Longrightarrow> k \<noteq> ''updatedAt'' \<Longrightarrow>
   obj_get (potentialNewElement w old ups) k = obj_get (spread old ups) k"
  by (simp add: potentialNewElement_def obj_get_obj_delete obj_get_obj_set)

lemma map_of_update_opacity_other:
  "k \<noteq> ''opacity'' \<Longrightarrow> map_of (update_opacity ups) k = map_of ups k"
  by (simp add: update_opacity_def map_of_obj_set)

lemma next_version_number: "next_version (JNum v) = JNum (round_to_double (v + 1))"
  by (simp add: next_version_def js_or_def)

section \<open>Claims about update_element\<close>

text \<open>
  C4. An update of an id that the repository holds, with arguments that pass the
  handler's schema, keeps the element's id, stores the prior version plus 1, the
  version nonce \<^verbatim>\<open>Math.floor(Math.random() * 2 ** 31)\<close> of this call's random value and
  the clock's time as \<open>updated\<close>, leaves no \<open>createdAt\<close> or \<open>updatedAt\<close> key in the
  stored element, and answers, without the error flag, with the id and the new version.
  The stored version is a number in every repository the handlers build (lemmas
  \<open>versions_numeric_create\<close> to \<open>versions_numeric_save\<close>), and its successor is a double
  as long as it is an integer below \<open>2 ^ 53\<close>.
\<close>

theorem update_element_versioning:
  assumes "z_passthrough (UpdateSchema (element_types w)) (JObj a) \<noteq> None"
    and "obj_get a ''id'' = JStr i" and "i \<noteq> []"
    and "map_of (elements st) i \<noteq> None"
    and "element_field st i ''version'' = JNum v"
    and "round_to_double (v + 1) = v + 1"
  shows "\<exists>el. update_element w (JObj a) st =
           (Inr \<lparr>content_text = Json (JObj [(''id'', element_field st i ''id''),
                                             (''updated'', JBool True),
                                             (''version'', JNum (v + 1))]),
                 isError = False\<rparr>,
            st\<lparr>elements := AList.update i el (elements st)\<rparr>)
         \<and> map_of (elements (snd (update_element w (JObj a) st))) i = Some el
         \<and> obj_get el ''id'' = element_field st i ''id''
         \<and> obj_get el ''version'' = JNum (v + 1)
         \<and> obj_get el ''versionNonce'' = JNum (of_int \<lfloor>Math_random w 0 * 2 ^ 31\<rfloor>)
         \<and> obj_get el ''updated'' = JNum (Date_now w)
         \<and> map_of el ''createdAt'' = None
         \<and> map_of el ''updatedAt'' = None"
proof -
  from assms(1) obtain rp where rp: "z_passthrough (UpdateSchema (element_types w)) (JObj a) = Some rp"
    by auto
  then obtain rawParams where p: "z_passthrough (UpdateSchema (element_types w)) (JObj a) = Some (JObj rawParams)"
    by (auto elim: z_passthrough_obj)
  from assms(4) obtain old where old: "map_of (elements st) i = Some old" by auto
  with assms(5) have oldv: "obj_get old ''version'' = JNum v"
    and oldid: "element_field st i ''id'' = obj_get old ''id''"
    by (simp_all add: element_field_def)
  let ?ups = "update_opacity (obj_delete rawParams ''id'')"
  let ?el = "potentialNewElement w old ?ups"
  have noid: "map_of ?ups ''id'' = None"
    by (simp add: map_of_update_opacity_other map_of_obj_delete)
  have id: "obj_get ?el ''id'' = obj_get old ''id''"
    by (simp add: potentialNewElement_other obj_get_spread_other noid)
  have ver: "obj_get ?el ''version'' = JNum (v + 1)"
    by (simp add: potentialNewElement_fields oldv next_version_number assms(6))
  have non: "obj_get ?el ''versionNonce'' = JNum (of_int \<lfloor>Math_random w 0 * 2 ^ 31\<rfloor>)"
    by (simp add: potentialNewElement_fields random31_def)
  have run: "update_element w (JObj a) st =
           (Inr \<lparr>content_text = Json (JObj [(''id'', obj_get old ''id''),
                                             (''updated'', JBool True),
                                             (''version'', JNum (v + 1))]),
                 isError = False\<rparr>,
            st\<lparr>elements := AList.update i ?el (elements st)\<rparr>)"
    using update_element_parsed[OF p assms(2,3) old] id ver by (simp add: reply_def)
  have "map_of (elements (snd (update_element w (JObj a) st))) i = Some ?el"
    by (simp add: run update_conv')
  with run id ver non oldid show ?thesis
    by (intro exI[of _ ?el]) (simp add: potentialNewElement_fields)
qed

text \<open>
  The theorem at rectangle \<open>a\<close>, created at time 1000 with version 1 and nonce
  536870912, and a patch that carries a new \<open>x\<close> and values for the timestamps and the
  system's fields, in a world whose clock reads 2000 and whose random value is 0.75.
\<close>

theorem update_element_versioning_witness:
  "z_passthrough (UpdateSchema (element_types later_world)) (JObj stamped_update_args) \<noteq> None
   \<and> map_of (elements one_rectangle) ''a'' \<noteq> None
   \<and> element_field one_rectangle ''a'' ''version'' = JNum 1
   \<and> element_field one_rectangle ''a'' ''versionNonce'' = JNum 536870912
   \<and> element_field one_rectangle ''a'' ''updated'' = JNum 1000
   \<and> round_to_double (1 + 1) = 1 + 1
   \<and> fst (update_element later_world (JObj stamped_update_args) one_rectangle)
       = Inr \<lparr>content_text = Json (JObj [(''id'', JStr ''a''), (''updated'', JBool True),
                                         (''version'', JNum 2)]),
              isError = False\<rparr>
   \<and> element_field (snd (update_element later_world (JObj stamped_update_args) one_rectangle))
        ''a'' ''id'' = JStr ''a''
   \<and> element_field (snd (update_element later_world (JObj stamped_update_args) one_rectangle))
        ''a'' ''version'' = JNum 2
   \<and> element_field (snd (update_element later_world (JObj stamped_update_args) one_rectangle))
        ''a'' ''versionNonce'' = JNum 1610612736
   \<and> element_field (snd (update_element later_world (JObj stamped_update_args) one_rectangle))
        ''a'' ''updated'' = JNum 2000
   \<and> element_field (snd (update_element later_world (JObj stamped_update_args) one_rectangle))
        ''a'' ''createdAt'' = JUndef
   \<and> element_field (snd (update_element later_world (JObj stamped_update_args) one_rectangle))
        ''a'' ''updatedAt'' = JUndef"
proof -
  let ?st' = "snd (update_element later_world (JObj stamped_update_args) one_rectangle)"
  have h1: "z_passthrough (UpdateSchema (element_types later_world)) (JObj stamped_update_args) \<noteq> None"
    by code_simp
  have h2: "obj_get stamped_update_args ''id'' = JStr ''a''" by code_simp
  have h3: "''a'' \<noteq> []" by simp
  have h4: "map_of (elements one_rectangle) ''a'' \<noteq> None" by code_simp
  have h5: "element_field one_rectangle ''a'' ''version'' = JNum 1" by code_simp
  have h6: "round_to_double (1 + 1) = 1 + 1" by code_simp
  have before: "element_field one_rectangle ''a'' ''id'' = JStr ''a''"
    "element_field one_rectangle ''a'' ''versionNonce'' = JNum 536870912"
    "element_field one_rectangle ''a'' ''updated'' = JNum 1000"
    by code_simp+
  have world: "JNum (of_int \<lfloor>Math_random later_world 0 * 2 ^ 31\<rfloor>) = JNum 1610612736"
    "JNum (Date_now later_world) = JNum 2000"
    by code_simp+
  from update_element_versioning[OF h1 h2 h3 h4 h5 h6] obtain el where
    run: "fst (update_element later_world (JObj stamped_update_args) one_rectangle)
          = Inr \<lparr>content_text = Json (JObj [(''id'', element_field one_rectangle ''a'' ''id''),
                 (''updated'', JBool True), (''version'', JNum (1 + 1))]), isError = False\<rparr>"
    and look: "map_of (elements ?st') ''a'' = Some el"
    and el: "obj_get el ''id'' = element_field one_rectangle ''a'' ''id''"
      "obj_get el ''version'' = JNum (1 + 1)"
      "obj_get el ''versionNonce'' = JNum (of_int \<lfloor>Math_random later_world 0 * 2 ^ 31\<rfloor>)"
      "obj_get el ''updated'' = JNum (Date_now later_world)"
      "map_of el ''createdAt'' = None" "map_of el ''updatedAt'' = None"
    by auto
  have f: "element_field ?st' ''a'' k = obj_get el k" for k
    by (simp add: element_field_def look)
  have gone: "obj_get el ''createdAt'' = JUndef" "obj_get el ''updatedAt'' = JUndef"
    using el(5,6) by (simp_all add: obj_get_def)
  from h1 h4 h5 h6 before world run el(1-4) gone show ?thesis
    by (simp add: f)
qed

section \<open>Claims about a missing id\<close>

lemma update_element_zod_error:
  "z_passthrough (UpdateSchema (element_types w)) args = None \<Longrightarrow>
   update_element w args st = (Inl ZodError, st)"
  by (simp add: update_element_def)

lemma delete_element_missing:
  assumes "obj_get a ''id'' = JStr i" and "map_of (elements st) i = None"
  shows "delete_element (JObj a) st = (Inl (not_found i), st)"
proof -
  have "z_object ElementIdSchema (JObj a) = Some (JObj [(''id'', JStr i)])"
    using assms(1)
    by (simp add: z_object_def z_object_gen_def parse_shape_def ElementIdSchema_def z_string_def)
  with assms(2) show ?thesis
    by (simp add: delete_element_def obj_get_def)
qed

text \<open>
  C5. For an id that the repository does not hold, \<open>update_element\<close> and
  \<open>delete_element\<close> fail and leave the server's state as it was. The update fails
  whatever else the arguments carry; when they pass the schema and the id is not the
  empty string (which line 371 refuses as "Element ID is required"), the error is the
  not-found error, as it is for every delete.
\<close>

theorem missing_id_not_found:
  assumes "map_of (elements st) i = None" and "obj_get a ''id'' = JStr i"
  shows "(\<exists>e. update_element w (JObj a) st = (Inl e, st))
       \<and> (z_passthrough (UpdateSchema (element_types w)) (JObj a) \<noteq> None \<and> i \<noteq> []
            \<longrightarrow> update_element w (JObj a) st = (Inl (not_found i), st))
       \<and> delete_element (JObj a) st = (Inl (not_found i), st)"
proof -
  have valid: "update_element w (JObj a) st =
                 (if i = [] then (Inl (Error ''Element ID is required''), st)
                  else (Inl (not_found i), st))"
    if "z_passthrough (UpdateSchema (element_types w)) (JObj a) \<noteq> None"
  proof -
    from that obtain rp where "z_passthrough (UpdateSchema (element_types w)) (JObj a) = Some rp"
      by auto
    then obtain rawParams where
      p: "z_passthrough (UpdateSchema (element_types w)) (JObj a) = Some (JObj rawParams)"
      by (auto elim: z_passthrough_obj)
    have "obj_get rawParams ''id'' = JStr i"
      using update_parse_id[OF p] assms(2) by simp
    with p assms(1) show ?thesis
      by (simp add: update_element_def)
  qed
  have "\<exists>e. update_element w (JObj a) st = (Inl e, st)"
  proof (cases "z_passthrough (UpdateSchema (element_types w)) (JObj a) = None")
    case True
    then show ?thesis by (simp add: update_element_zod_error)
  next
    case False
    then show ?thesis using valid by simp
  qed
  moreover have "delete_element (JObj a) st = (Inl (not_found i), st)"
    using assms by (simp add: delete_element_missing)
  ultimately show ?thesis using valid by simp
qed

text \<open>
  The theorem at the repository with the one rectangle \<open>a\<close> and the id \<open>b\<close>.
\<close>

theorem missing_id_not_found_witness:
  "map_of (elements one_rectangle) ''b'' = None
   \<and> update_element (example_world ''z'' None) (JObj [(''id'', JStr ''b''), (''x'', JNum 5)]) one_rectangle
       = (Inl (Error ''Element with ID b not found''), one_rectangle)
   \<and> delete_element (JObj [(''id'', JStr ''b''), (''x'', JNum 5)]) one_rectangle
       = (Inl (Error ''Element with ID b not found''), one_rectangle)"
proof -
  let ?w = "example_world ''z'' None"
  let ?a = "[(''id'', JStr ''b''), (''x'', JNum 5)]"
  have h1: "map_of (elements one_rectangle) ''b'' = None" by code_simp
  have h2: "obj_get ?a ''id'' = JStr ''b''" by code_simp
  have h3: "z_passthrough (UpdateSchema (element_types ?w)) (JObj ?a) \<noteq> None" by code_simp
  have nf: "not_found ''b'' = Error ''Element with ID b not found''" by (simp add: not_found_def)
  from missing_id_not_found[OF h1 h2, of ?w] h1 h3 nf show ?thesis by simp
qed

section \<open>Claims about the system's fields and the opacity\<close>

lemma new_element_system_fields:
  "obj_get (new_element w params) ''seed'' = random31 (Math_random w 0)"
  "obj_get (new_element w params) ''version'' = JNum 1"
  "obj_get (new_element w params) ''versionNonce'' = random31 (Math_random w 1)"
  "obj_get (new_element w params) ''updated'' = JNum (Date_now w)"
  by (simp_all add: new_element_def obj_get_def)

lemma new_element_opacity:
  "obj_get (new_element w params) ''opacity'' =
     (if obj_get params ''opacity'' \<noteq> JUndef
      then scale_opacity (obj_get params ''opacity'') else JNum 100)"
  by (simp add: new_element_def obj_get_def)

lemma create_parse_opacity:
  assumes "z_passthrough (ElementSchema types) (create_font (JObj a)) = Some (JObj params)"
  shows "obj_get params ''opacity'' = obj_get a ''opacity''
         \<and> (obj_get a ''opacity'' = JUndef \<or> (\<exists>n. obj_get a ''opacity'' = JNum n))"
proof -
  obtain a' where a': "create_font (JObj a) = JObj a'"
    using create_font_obj by blast
  have "(''opacity'', z_optional z_number) \<in> set (ElementSchema types)"
    by (simp add: ElementSchema_def)
  from z_object_gen_shape[OF assms[unfolded z_passthrough_def a'] distinct_ElementSchema this]
  have "z_optional z_number (obj_get a' ''opacity'') = Some (obj_get params ''opacity'')" .
  moreover have "obj_get a' ''opacity'' = obj_get a ''opacity''"
    using create_font_other[OF a'] by simp
  ultimately show ?thesis by (auto dest: z_optional_number_D)
qed

lemma update_element_field:
  assumes "fst (update_element w (JObj a) st) = Inr r" and "obj_get a ''id'' = JStr i"
  obtains rawParams old where
    "z_passthrough (UpdateSchema (element_types w)) (JObj a) = Some (JObj rawParams)"
    and "map_of (elements st) i = Some old"
    and "\<forall>k. element_field st i k = obj_get old k"
    and "\<forall>k. element_field (snd (update_element w (JObj a) st)) i k
              = obj_get (potentialNewElement w old (update_opacity (obj_delete rawParams ''id''))) k"
proof -
  from assms(1) obtain a0 rawParams i0 old where a0: "JObj a = JObj a0"
    and p: "z_passthrough (UpdateSchema (element_types w)) (JObj a0) = Some (JObj rawParams)"
    and i0: "obj_get a0 ''id'' = JStr i0" and ne: "i0 \<noteq> []"
    and old: "map_of (elements st) i0 = Some old"
    by (rule update_element_InrD)
  from a0 i0 assms(2) have eq: "a0 = a" "i0 = i" by simp_all
  have f1: "\<forall>k. element_field st i k = obj_get old k"
    using old eq by (simp add: element_field_def)
  have f2: "\<forall>k. element_field (snd (update_element w (JObj a) st)) i k
              = obj_get (potentialNewElement w old (update_opacity (obj_delete rawParams ''id''))) k"
    using update_element_parsed[OF p i0 ne old] eq
    by (simp add: element_field_def update_conv')
  show ?thesis
    using that[OF _ _ f1 f2] p old eq by simp
qed

text \<open>
  C9, as amended. A create stores the seed, version 1, version nonce and \<open>updated\<close>
  time that the handler computes, whatever the arguments carry. An update stores the
  version, version nonce and \<open>updated\<close> time that it computes, whatever the patch
  carries, and leaves the seed as it was when the patch has no \<open>seed\<close> key.
\<close>

theorem system_fields_assigned:
  "(fst (create_element w args st) = Inr r \<longrightarrow>
      element_field (snd (create_element w args st)) (generateId w) ''seed''
        = random31 (Math_random w 0)
    \<and> element_field (snd (create_element w args st)) (generateId w) ''version'' = JNum 1
    \<and> element_field (snd (create_element w args st)) (generateId w) ''versionNonce''
        = random31 (Math_random w 1)
    \<and> element_field (snd (create_element w args st)) (generateId w) ''updated''
        = JNum (Date_now w))
   \<and> (fst (update_element w (JObj a) st) = Inr r' \<and> obj_get a ''id'' = JStr i \<longrightarrow>
      element_field (snd (update_element w (JObj a) st)) i ''version''
        = next_version (element_field st i ''version'')
    \<and> element_field (snd (update_element w (JObj a) st)) i ''versionNonce''
        = random31 (Math_random w 0)
    \<and> element_field (snd (update_element w (JObj a) st)) i ''updated'' = JNum (Date_now w)
    \<and> (map_of a ''seed'' = None \<longrightarrow>
          element_field (snd (update_element w (JObj a) st)) i ''seed''
            = element_field st i ''seed''))"
proof (intro conjI impI)
  assume c: "fst (create_element w args st) = Inr r"
  then obtain b params where "args = JObj b"
    and "z_passthrough (ElementSchema (element_types w)) (create_font (JObj b)) = Some (JObj params)"
    and f: "\<forall>k. element_field (snd (create_element w args st)) (generateId w) k
              = obj_get (synthesize_points (new_element w params)) k"
    by (rule create_element_field)
  show "element_field (snd (create_element w args st)) (generateId w) ''seed''
        = random31 (Math_random w 0)"
    by (simp add: f obj_get_synthesize_points_other new_element_system_fields)
  show "element_field (snd (create_element w args st)) (generateId w) ''version'' = JNum 1"
    by (simp add: f obj_get_synthesize_points_other new_element_system_fields)
  show "element_field (snd (create_element w args st)) (generateId w) ''versionNonce''
        = random31 (Math_random w 1)"
    by (simp add: f obj_get_synthesize_points_other new_element_system_fields)
  show "element_field (snd (create_element w args st)) (generateId w) ''updated''
        = JNum (Date_now w)"
    by (simp add: f obj_get_synthesize_points_other new_element_system_fields)
next
  assume u: "fst (update_element w (JObj a) st) = Inr r' \<and> obj_get a ''id'' = JStr i"
  then have u1: "fst (update_element w (JObj a) st) = Inr r'" and u2: "obj_get a ''id'' = JStr i"
    by simp_all
  from u1 u2 obtain rawParams old where
    p: "z_passthrough (UpdateSchema (element_types w)) (JObj a) = Some (JObj rawParams)"
    and "map_of (elements st) i = Some old"
    and f1: "\<forall>k. element_field st i k = obj_get old k"
    and f2: "\<forall>k. element_field (snd (update_element w (JObj a) st)) i k
              = obj_get (potentialNewElement w old (update_opacity (obj_delete rawParams ''id''))) k"
    by (rule update_element_field)
  show "element_field (snd (update_element w (JObj a) st)) i ''version''
        = next_version (element_field st i ''version'')"
    by (simp add: f1 f2 potentialNewElement_fields)
  show "element_field (snd (update_element w (JObj a) st)) i ''versionNonce''
        = random31 (Math_random w 0)"
    by (simp add: f2 potentialNewElement_fields)
  show "element_field (snd (update_element w (JObj a) st)) i ''updated'' = JNum (Date_now w)"
    by (simp add: f2 potentialNewElement_fields)
  assume ns: "map_of a ''seed'' = None"
  have "map_of (UpdateSchema (element_types w)) ''seed'' = None"
    by (simp add: UpdateSchema_eq)
  from z_passthrough_extra[OF p this] ns have "map_of rawParams ''seed'' = None" by simp
  then have "map_of (update_opacity (obj_delete rawParams ''id'')) ''seed'' = None"
    by (simp add: map_of_update_opacity_other map_of_obj_delete)
  then show "element_field (snd (update_element w (JObj a) st)) i ''seed''
            = element_field st i ''seed''"
    by (simp add: f1 f2 potentialNewElement_other obj_get_spread_other)
qed


text \<open>
  The theorem at arguments that carry values for the system's fields.
\<close>

theorem system_fields_assigned_witness:
  "element_field (snd (create_element (example_world ''c'' None) forged_create_args initial_server))
       ''c'' ''seed'' = JNum 1073741824
   \<and> element_field (snd (create_element (example_world ''c'' None) forged_create_args initial_server))
       ''c'' ''version'' = JNum 1
   \<and> element_field (snd (create_element (example_world ''c'' None) forged_create_args initial_server))
       ''c'' ''versionNonce'' = JNum 536870912
   \<and> element_field (snd (create_element (example_world ''c'' None) forged_create_args initial_server))
       ''c'' ''updated'' = JNum 1000
   \<and> element_field one_rectangle ''a'' ''version'' = JNum 1
   \<and> element_field (snd (update_element (example_world ''z'' None) (JObj forged_update_args) one_rectangle))
       ''a'' ''version'' = JNum 2
   \<and> element_field (snd (update_element (example_world ''z'' None) (JObj forged_update_args) one_rectangle))
       ''a'' ''versionNonce'' = JNum 1073741824
   \<and> element_field (snd (update_element (example_world ''z'' None) (JObj forged_update_args) one_rectangle))
       ''a'' ''updated'' = JNum 1000
   \<and> element_field (snd (update_element (example_world ''z'' None) (JObj forged_update_args) one_rectangle))
       ''a'' ''seed'' = element_field one_rectangle ''a'' ''seed''"
proof -
  let ?wc = "example_world ''c'' None"
  let ?wu = "example_world ''z'' None"
  have hc: "fst (create_element ?wc forged_create_args initial_server)
            = Inr (reply (Json (JObj [(''id'', JStr ''c''), (''type'', JStr ''rectangle''),
                                      (''created'', JBool True)])))"
    by code_simp
  have hu: "fst (update_element ?wu (JObj forged_update_args) one_rectangle)
            = Inr (reply (Json (JObj [(''id'', JStr ''a''), (''updated'', JBool True),
                                      (''version'', JNum 2)])))
            \<and> obj_get forged_update_args ''id'' = JStr ''a''"
    by code_simp
  have hs: "map_of forged_update_args ''seed'' = None" by code_simp
  have e: "generateId ?wc = ''c''" "random31 (Math_random ?wc 0) = JNum 1073741824"
    "random31 (Math_random ?wc 1) = JNum 536870912" "JNum (Date_now ?wc) = JNum 1000"
    "random31 (Math_random ?wu 0) = JNum 1073741824" "JNum (Date_now ?wu) = JNum 1000"
    "element_field one_rectangle ''a'' ''version'' = JNum 1"
    "next_version (JNum 1) = JNum 2"
    by code_simp+
  note c = system_fields_assigned[where w = ?wc and args = forged_create_args
        and st = initial_server, THEN conjunct1, rule_format, OF hc]
  note u = system_fields_assigned[where w = ?wu and a = forged_update_args and st = one_rectangle
        and i = "''a''", THEN conjunct2, rule_format, OF hu]
  from c u hs e show ?thesis by simp
qed

text \<open>
  C9 as stated fails: a patch that carries \<open>seed\<close> replaces the stored seed, since the
  patch is spread over the element and only \<open>version\<close>, \<open>versionNonce\<close> and
  \<open>updated\<close> are written after it.
\<close>

theorem update_overwrites_seed:
  "element_field one_rectangle ''a'' ''seed'' = JNum 1073741824
   \<and> element_field (snd (update_element (example_world ''z'' None)
                            (JObj [(''id'', JStr ''a''), (''seed'', JNum 7)]) one_rectangle))
       ''a'' ''seed'' = JNum 7"
  by code_simp

text \<open>
  C7, as amended. A create that succeeds stores 100 when the arguments have no opacity
  and, for an opacity \<open>v\<close>, the double nearest to \<open>v * 100\<close> clamped to the interval
  from 0 to 100; an update that succeeds stores the same clamped value for an opacity
  \<open>v\<close> in its patch. The stored value is in the interval; it need not be an integer.
\<close>

theorem opacity_scaled_and_clamped:
  "(fst (create_element w (JObj a) st) = Inr r \<longrightarrow>
      (obj_get a ''opacity'' = JUndef \<longrightarrow>
         element_field (snd (create_element w (JObj a) st)) (generateId w) ''opacity'' = JNum 100)
    \<and> (obj_get a ''opacity'' = JNum v \<longrightarrow>
         element_field (snd (create_element w (JObj a) st)) (generateId w) ''opacity''
           = JNum (max 0 (min 100 (round_to_double (v * 100))))))
   \<and> (fst (update_element w (JObj a) st) = Inr r' \<and> obj_get a ''id'' = JStr i
        \<and> distinct (map fst a) \<and> obj_get a ''opacity'' = JNum v \<longrightarrow>
         element_field (snd (update_element w (JObj a) st)) i ''opacity''
           = JNum (max 0 (min 100 (round_to_double (v * 100)))))
   \<and> 0 \<le> max 0 (min 100 (round_to_double (v * 100)))
   \<and> max 0 (min 100 (round_to_double (v * 100))) \<le> 100"
proof (intro conjI impI)
  assume c: "fst (create_element w (JObj a) st) = Inr r"
  then obtain b params where b: "JObj a = JObj b"
    and p: "z_passthrough (ElementSchema (element_types w)) (create_font (JObj b)) = Some (JObj params)"
    and f: "\<forall>k. element_field (snd (create_element w (JObj a) st)) (generateId w) k
              = obj_get (synthesize_points (new_element w params)) k"
    by (rule create_element_field)
  from b have ba: "b = a" by simp
  note po = create_parse_opacity[OF p[unfolded ba]]
  have g: "element_field (snd (create_element w (JObj a) st)) (generateId w) ''opacity''
           = (if obj_get a ''opacity'' \<noteq> JUndef
              then scale_opacity (obj_get a ''opacity'') else JNum 100)"
    using po by (simp add: f obj_get_synthesize_points_other new_element_opacity)
  show "element_field (snd (create_element w (JObj a) st)) (generateId w) ''opacity'' = JNum 100"
    if "obj_get a ''opacity'' = JUndef"
    using that g by simp
  show "element_field (snd (create_element w (JObj a) st)) (generateId w) ''opacity''
           = JNum (max 0 (min 100 (round_to_double (v * 100))))"
    if "obj_get a ''opacity'' = JNum v"
    using that g by (simp add: scale_opacity_def)
next
  assume u: "fst (update_element w (JObj a) st) = Inr r' \<and> obj_get a ''id'' = JStr i
        \<and> distinct (map fst a) \<and> obj_get a ''opacity'' = JNum v"
  then have u1: "fst (update_element w (JObj a) st) = Inr r'" and u2: "obj_get a ''id'' = JStr i"
    and d: "distinct (map fst a)" and o: "obj_get a ''opacity'' = JNum v"
    by simp_all
  from u1 u2 obtain rawParams old where
    p: "z_passthrough (UpdateSchema (element_types w)) (JObj a) = Some (JObj rawParams)"
    and "map_of (elements st) i = Some old"
    and f1: "\<forall>k. element_field st i k = obj_get old k"
    and f2: "\<forall>k. element_field (snd (update_element w (JObj a) st)) i k
              = obj_get (potentialNewElement w old (update_opacity (obj_delete rawParams ''id''))) k"
    by (rule update_element_field)
  have dr: "distinct (map fst rawParams)"
    using z_passthrough_distinct[OF p distinct_UpdateSchema d] .
  have ro: "obj_get (obj_delete rawParams ''id'') ''opacity'' = JNum v"
    using update_parse_opacity[OF p] o by (simp add: obj_get_obj_delete)
  let ?ups = "update_opacity (obj_delete rawParams ''id'')"
  have du: "distinct (map fst ?ups)"
    using dr by (simp add: update_opacity_def distinct_obj_set distinct_obj_delete)
  have "map_of ?ups ''opacity'' = Some (scale_opacity (JNum v))"
    using ro by (simp add: update_opacity_def map_of_obj_set)
  then have "obj_get (spread old ?ups) ''opacity'' = scale_opacity (JNum v)"
    by (simp add: obj_get_spread[OF du])
  then show "element_field (snd (update_element w (JObj a) st)) i ''opacity''
           = JNum (max 0 (min 100 (round_to_double (v * 100))))"
    using f2 by (simp add: potentialNewElement_other scale_opacity_def)
qed simp_all

text \<open>
  The theorem at the doubles 0.5, which gives 50, 1.2, which gives 100, and 0.07, which
  gives 7.000000000000001 (7 and \<open>2 ^ -50\<close>); without an opacity, which gives 100; and at
  an update of rectangle \<open>a\<close> with 0.07. The double 1.2 is 5404319552844595 over
  \<open>2 ^ 52\<close>, the double 0.07 is 1261007895663739 over \<open>2 ^ 54\<close>.
\<close>

theorem opacity_scaled_and_clamped_witness:
  "round_to_double (6 / 5) = 5404319552844595 / 4503599627370496
   \<and> round_to_double (7 / 100) = 1261007895663739 / 18014398509481984
   \<and> element_field (snd (create_element (example_world ''c'' None) (opacity_args (1 / 2)) initial_server))
       ''c'' ''opacity'' = JNum 50
   \<and> element_field (snd (create_element (example_world ''c'' None)
                            (opacity_args (5404319552844595 / 4503599627370496)) initial_server))
       ''c'' ''opacity'' = JNum 100
   \<and> element_field (snd (create_element (example_world ''c'' None)
                            (opacity_args (1261007895663739 / 18014398509481984)) initial_server))
       ''c'' ''opacity'' = JNum (7881299347898369 / 1125899906842624)
   \<and> element_field (snd (create_element (example_world ''c'' None) plain_args initial_server))
       ''c'' ''opacity'' = JNum 100
   \<and> element_field one_rectangle ''a'' ''opacity'' = JNum 100
   \<and> element_field (snd (update_element (example_world ''z'' None)
                            (JObj [(''id'', JStr ''a''),
                                   (''opacity'', JNum (1261007895663739 / 18014398509481984))])
                            one_rectangle))
       ''a'' ''opacity'' = JNum (7881299347898369 / 1125899906842624)"
proof -
  let ?wc = "example_world ''c'' None"
  let ?wu = "example_world ''z'' None"
  let ?ok = "Inr (reply (Json (JObj [(''id'', JStr ''c''), (''type'', JStr ''rectangle''),
                                      (''created'', JBool True)])))"
  let ?d12 = "5404319552844595 / 4503599627370496 :: rat"
  let ?d007 = "1261007895663739 / 18014398509481984 :: rat"
  let ?ua = "[(''id'', JStr ''a''), (''opacity'', JNum ?d007)]"
  let ?ca = "\<lambda>v. [(''type'', JStr ''rectangle''), (''x'', JNum 1), (''y'', JNum 2), (''opacity'', JNum v)]"
  let ?pa = "[(''type'', JStr ''rectangle''), (''x'', JNum 1), (''y'', JNum 2)]"
  have dbl: "round_to_double (6 / 5) = ?d12" "round_to_double (7 / 100) = ?d007"
    by code_simp+
  have h1: "fst (create_element ?wc (JObj (?ca (1 / 2))) initial_server) = ?ok"
    and h2: "fst (create_element ?wc (JObj (?ca ?d12)) initial_server) = ?ok"
    and h3: "fst (create_element ?wc (JObj (?ca ?d007)) initial_server) = ?ok"
    and h4: "fst (create_element ?wc (JObj ?pa) initial_server) = ?ok"
    by code_simp+
  have hu: "fst (update_element ?wu (JObj ?ua) one_rectangle)
            = Inr (reply (Json (JObj [(''id'', JStr ''a''), (''updated'', JBool True),
                                      (''version'', JNum 2)])))
            \<and> obj_get ?ua ''id'' = JStr ''a'' \<and> distinct (map fst ?ua)
            \<and> obj_get ?ua ''opacity'' = JNum ?d007"
    by code_simp
  have g: "generateId ?wc = ''c''" by code_simp
  have o: "obj_get (?ca (1 / 2)) ''opacity'' = JNum (1 / 2)"
    "obj_get (?ca ?d12) ''opacity'' = JNum ?d12"
    "obj_get (?ca ?d007) ''opacity'' = JNum ?d007"
    "obj_get ?pa ''opacity'' = JUndef"
    by (simp_all add: obj_get_def)
  have val: "JNum (max 0 (min 100 (round_to_double (1 / 2 * 100)))) = JNum 50"
    "JNum (max 0 (min 100 (round_to_double (?d12 * 100)))) = JNum 100"
    "JNum (max 0 (min 100 (round_to_double (?d007 * 100))))
       = JNum (7881299347898369 / 1125899906842624)"
    by code_simp+
  have before: "element_field one_rectangle ''a'' ''opacity'' = JNum 100" by code_simp
  note t1 = opacity_scaled_and_clamped[where w = ?wc and st = initial_server and v = "1 / 2",
      THEN conjunct1, rule_format, THEN conjunct2, rule_format, OF h1 o(1)]
  note t2 = opacity_scaled_and_clamped[where w = ?wc and st = initial_server and v = ?d12,
      THEN conjunct1, rule_format, THEN conjunct2, rule_format, OF h2 o(2)]
  note t3 = opacity_scaled_and_clamped[where w = ?wc and st = initial_server and v = ?d007,
      THEN conjunct1, rule_format, THEN conjunct2, rule_format, OF h3 o(3)]
  note t4 = opacity_scaled_and_clamped[where w = ?wc and st = initial_server,
      THEN conjunct1, rule_format, THEN conjunct1, rule_format, OF h4 o(4)]
  note t5 = opacity_scaled_and_clamped[where w = ?wu and a = ?ua and st = one_rectangle
        and v = ?d007 and i = "''a''",
      THEN conjunct2, THEN conjunct1, rule_format, OF hu]
  from t1 t2 t3 t4 t5 have
    "element_field (snd (create_element ?wc (JObj (?ca (1 / 2))) initial_server)) ''c'' ''opacity''
       = JNum 50"
    "element_field (snd (create_element ?wc (JObj (?ca ?d12)) initial_server)) ''c'' ''opacity''
       = JNum 100"
    "element_field (snd (create_element ?wc (JObj (?ca ?d007)) initial_server)) ''c'' ''opacity''
       = JNum (7881299347898369 / 1125899906842624)"
    "element_field (snd (create_element ?wc (JObj ?pa) initial_server)) ''c'' ''opacity'' = JNum 100"
    "element_field (snd (update_element ?wu (JObj ?ua) one_rectangle)) ''a'' ''opacity''
       = JNum (7881299347898369 / 1125899906842624)"
    unfolding g val by simp_all
  with dbl before show ?thesis
    by (simp only: opacity_args_def plain_args_def simp_thms)
qed

text \<open>
  C7 as stated fails: the opacity 0.125 is stored as 12.5, strictly between 12 and 13.
  (0.125 and 12.5 are binary fractions, so the product is exact in doubles too.)
\<close>

theorem fractional_opacity_not_integer:
  "element_field (snd (create_element (example_world ''c'' None) (opacity_args (1 / 8)) initial_server))
       ''c'' ''opacity'' = JNum (25 / 2)
   \<and> (12::rat) < 25 / 2 \<and> (25 / 2 :: rat) < 13"
  by code_simp

section \<open>The code at the inputs where claims C1, C2, C3 and C8 fail\<close>

text \<open>
  The handler returns the state it was given, whatever its arguments.
\<close>

lemma align_elements_state: "snd (align_elements args st) = st"
  by (simp add: align_elements_def split: option.splits jv.splits)

text \<open>
  C1. The code at the claim's own example: rectangles \<open>a\<close> at x = 10 and \<open>b\<close> at
  x = 50. Aligning them to the left answers \<open>aligned: true\<close> and returns the repository
  as it was, so \<open>b\<close> stays at x = 50 where the claim puts it at 10; and aligning with an
  id that the repository does not hold answers \<open>aligned: true\<close> as well, where the claim
  has a not-found failure.
\<close>

theorem align_left_moves_nothing:
  "align_elements (align_args [''a'', ''b'']) two_rectangles
     = (Inr (reply (Json (JObj [(''aligned'', JBool True),
                                (''elementIds'', JArr [JStr ''a'', JStr ''b'']),
                                (''alignment'', JStr ''left'')]))),
        two_rectangles)
   \<and> element_field two_rectangles ''a'' ''x'' = JNum 10
   \<and> element_field two_rectangles ''b'' ''x'' = JNum 50
   \<and> map_of (elements two_rectangles) ''missing'' = None
   \<and> align_elements (align_args [''a'', ''missing'']) two_rectangles
     = (Inr (reply (Json (JObj [(''aligned'', JBool True),
                                (''elementIds'', JArr [JStr ''a'', JStr ''missing'']),
                                (''alignment'', JStr ''left'')]))),
        two_rectangles)"
  by code_simp

text \<open>
  C2. The code at a line of width 0 and height 5 without points: the stored width is 0
  (line 310 keeps a supplied 0), and the second synthesized point is (10, 5), since
  \<^verbatim>\<open>element.width || 10\<close> at line 350 reads the 0 as missing. The claim has (0, 5).
\<close>

theorem vertical_line_points:
  "element_field (snd (create_element (example_world ''c'' None) vertical_line_args initial_server))
       ''c'' ''width'' = JNum 0
   \<and> element_field (snd (create_element (example_world ''c'' None) vertical_line_args initial_server))
       ''c'' ''height'' = JNum 5
   \<and> element_field (snd (create_element (example_world ''c'' None) vertical_line_args initial_server))
       ''c'' ''points'' = JArr [JArr [JNum 0, JNum 0], JArr [JNum 10, JNum 5]]"
  by code_simp

text \<open>
  C3. The code at an arrow created with two points: the points are stored and
  \<open>endArrowhead\<close> is null, where the claim has "arrow"; the default of line 353 stands
  inside the branch that synthesizes points, and an arrow created without points gets it.
\<close>

theorem arrow_with_points_has_no_arrowhead:
  "element_field (snd (create_element (example_world ''c'' None) (arrow_args two_points) initial_server))
       ''c'' ''type'' = JStr ''arrow''
   \<and> element_field (snd (create_element (example_world ''c'' None) (arrow_args two_points) initial_server))
       ''c'' ''points'' = two_points
   \<and> element_field (snd (create_element (example_world ''c'' None) (arrow_args two_points) initial_server))
       ''c'' ''endArrowhead'' = JNull
   \<and> element_field (snd (create_element (example_world ''c'' None) bare_arrow_args initial_server))
       ''c'' ''endArrowhead'' = JStr ''arrow''"
  by code_simp

text \<open>
  The schema of line 368 has \<open>fontFamily\<close> as a number, so an update whose patch carries
  a string there throws before lines 376-379 can map it.
\<close>

lemma update_string_fontFamily:
  assumes "obj_get a ''fontFamily'' = JStr s"
  shows "update_element w (JObj a) st = (Inl ZodError, st)"
proof -
  have "z_passthrough (UpdateSchema (element_types w)) (JObj a) = None"
  proof (rule ccontr)
    assume "z_passthrough (UpdateSchema (element_types w)) (JObj a) \<noteq> None"
    then obtain rp where rp: "z_passthrough (UpdateSchema (element_types w)) (JObj a) = Some rp"
      by auto
    then obtain rawParams where
      "z_passthrough (UpdateSchema (element_types w)) (JObj a) = Some (JObj rawParams)"
      by (auto elim: z_passthrough_obj)
    from update_parse_fontFamily[OF this] assms show False by simp
  qed
  then show ?thesis by (rule update_element_zod_error)
qed

text \<open>
  C8. The code at an update of rectangle \<open>a\<close> with the font name "helvetica": it fails
  with the schema's error and the element keeps font 1, where the claim has code 2. At
  create time "Helvetica" gives 2 and the unknown name "comic" gives 1, as the claim says.
\<close>

theorem update_rejects_font_name:
  "update_element (example_world ''z'' None) (font_update_args ''helvetica'') one_rectangle
     = (Inl ZodError, one_rectangle)
   \<and> element_field one_rectangle ''a'' ''fontFamily'' = JNum 1
   \<and> element_field (snd (create_element (example_world ''c'' None) (font_create_args ''Helvetica'')
                            initial_server)) ''c'' ''fontFamily'' = JNum 2
   \<and> element_field (snd (create_element (example_world ''c'' None) (font_create_args ''comic'')
                            initial_server)) ''c'' ''fontFamily'' = JNum 1"
  by code_simp

section \<open>Claims about save_scene\<close>










section \<open>Claims about supplied points\<close>

lemma z_point_D:
  assumes "z_object [(''x'', z_number), (''y'', z_number)] v = Some r"
  shows "\<exists>p x y. v = JObj p \<and> obj_get p ''x'' = JNum x \<and> obj_get p ''y'' = JNum y
                 \<and> r = JObj [(''x'', JNum x), (''y'', JNum y)]"
proof -
  from assms obtain p where v: "v = JObj p"
    by (cases v) (simp_all add: z_object_def z_object_gen_def)
  from assms v obtain x where x: "obj_get p ''x'' = JNum x"
    by (cases "obj_get p ''x''")
       (simp_all add: z_object_def z_object_gen_def parse_shape_def z_number_def)
  from assms v x obtain y where y: "obj_get p ''y'' = JNum y"
    by (cases "obj_get p ''y''")
       (simp_all add: z_object_def z_object_gen_def parse_shape_def z_number_def)
  from assms v x y have "r = JObj [(''x'', JNum x), (''y'', JNum y)]"
    by (auto simp: z_object_def z_object_gen_def parse_shape_def z_number_def)
  with v x y show ?thesis by blast
qed

lemma z_points_D:
  assumes "z_optional (z_array (z_object [(''x'', z_number), (''y'', z_number)])) (JArr pts) = Some r"
  shows "\<exists>pts'. r = JArr pts' \<and> length pts' = length pts
          \<and> (\<forall>n<length pts. \<exists>p x y. pts ! n = JObj p \<and> obj_get p ''x'' = JNum x
                 \<and> obj_get p ''y'' = JNum y \<and> pts' ! n = JObj [(''x'', JNum x), (''y'', JNum y)])"
proof -
  let ?pt = "z_object [(''x'', z_number), (''y'', z_number)]"
  from assms obtain pts' where c: "collect (map ?pt pts) = Some pts'" and r: "r = JArr pts'"
    by (auto simp: z_optional_def z_array_def)
  have len: "length pts' = length pts"
    using collect_Some_length[OF c] by simp
  have "\<exists>p x y. pts ! n = JObj p \<and> obj_get p ''x'' = JNum x
                 \<and> obj_get p ''y'' = JNum y \<and> pts' ! n = JObj [(''x'', JNum x), (''y'', JNum y)]"
    if "n < length pts" for n
  proof -
    from that have "map ?pt pts ! n = Some (pts' ! n)"
      by (intro collect_Some_nth[OF c]) simp
    with that have "?pt (pts ! n) = Some (pts' ! n)" by simp
    then show ?thesis by (rule z_point_D)
  qed
  with r len show ?thesis by blast
qed

lemma create_parse_points:
  assumes "z_passthrough (ElementSchema types) (create_font (JObj a)) = Some (JObj params)"
  shows "z_optional (z_array (z_object [(''x'', z_number), (''y'', z_number)])) (obj_get a ''points'')
         = Some (obj_get params ''points'')"
proof -
  obtain a' where a': "create_font (JObj a) = JObj a'"
    using create_font_obj by blast
  have "(''points'', z_optional (z_array (z_object [(''x'', z_number), (''y'', z_number)])))
          \<in> set (ElementSchema types)"
    by (simp add: ElementSchema_def)
  from z_object_gen_shape[OF assms[unfolded z_passthrough_def a'] distinct_ElementSchema this]
  show ?thesis using create_font_other[OF a'] by simp
qed

lemma new_element_points: "obj_get (new_element w params) ''points'' = obj_get params ''points''"
  by (simp add: new_element_def obj_get_def)

lemma synthesize_points_valid:
  "\<not> points_invalid (obj_get el ''points'') \<Longrightarrow> synthesize_points el = el"
  by (simp add: synthesize_points_def)









section \<open>Further facts about the handlers\<close>

text \<open>
  The stored versions are numbers: true of the initial repository and kept by every
  handler that writes to it.
\<close>

lemma list_all_update:
  "list_all P xs \<Longrightarrow> P (k, v) \<Longrightarrow> list_all P (AList.update k v xs)"
  by (induction xs) auto

lemma list_all_delete: "list_all P xs \<Longrightarrow> list_all P (AList.delete k xs)"
  by (induction xs) auto

lemma versions_numeric_initial: "versions_numeric initial_server"
  by (simp add: versions_numeric_def initial_server_def)

lemma versions_numeric_create:
  assumes "versions_numeric st"
  shows "versions_numeric (snd (create_element w args st))"
proof (cases "fst (create_element w args st)")
  case (Inl e)
  then have "snd (create_element w args st) = st"
    by (auto simp: create_element_def Let_def split: option.splits jv.splits if_splits)
  with assms show ?thesis by simp
next
  case (Inr r)
  then obtain a params where "args = JObj a"
    and "z_passthrough (ElementSchema (element_types w)) (create_font (JObj a)) = Some (JObj params)"
    and s: "snd (create_element w args st) =
         st\<lparr>elements := AList.update (generateId w)
                 (strip_undefined (synthesize_points (new_element w params))) (elements st)\<rparr>"
    by (rule create_element_InrD)
  have "obj_get (strip_undefined (synthesize_points (new_element w params))) ''version'' = JNum 1"
    by (simp add: stored_field obj_get_synthesize_points_other new_element_system_fields)
  with assms show ?thesis
    by (simp add: s versions_numeric_def list_all_update)
qed

lemma next_version_is_number: "is_number v \<Longrightarrow> is_number (next_version v)"
  by (cases v) (simp_all add: next_version_def js_or_def)

lemma versions_numeric_update:
  assumes "versions_numeric st"
  shows "versions_numeric (snd (update_element w args st))"
proof (cases "fst (update_element w args st)")
  case (Inl e)
  then have "snd (update_element w args st) = st"
    by (auto simp: update_element_def Let_def split: option.splits jv.splits if_splits)
  with assms show ?thesis by simp
next
  case (Inr r)
  then obtain a rawParams i old where a: "args = JObj a"
    and p: "z_passthrough (UpdateSchema (element_types w)) (JObj a) = Some (JObj rawParams)"
    and i: "obj_get a ''id'' = JStr i" and ne: "i \<noteq> []"
    and old: "map_of (elements st) i = Some old"
    by (rule update_element_InrD)
  from old have "(i, old) \<in> set (elements st)" by (rule map_of_SomeD)
  with assms have "is_number (obj_get old ''version'')"
    by (auto simp: versions_numeric_def list_all_iff)
  then have "is_number (obj_get (potentialNewElement w old
                (update_opacity (obj_delete rawParams ''id''))) ''version'')"
    by (simp add: potentialNewElement_fields next_version_is_number)
  with assms show ?thesis
    unfolding a by (simp add: update_element_parsed[OF p i ne old] versions_numeric_def list_all_update)
qed

lemma versions_numeric_delete:
  "versions_numeric st \<Longrightarrow> versions_numeric (snd (delete_element args st))"
  by (auto simp: delete_element_def versions_numeric_def list_all_delete
      split: option.splits jv.splits)

lemma repair_points_other: "k \<noteq> ''points'' \<Longrightarrow> obj_get (repair_points el) k = obj_get el k"
  by (simp add: repair_points_def obj_get_obj_set)

lemma versions_numeric_save:
  assumes "versions_numeric st"
  shows "versions_numeric (snd (save_scene w args st))"
proof -
  have "versions_numeric (st\<lparr>elements := map (\<lambda>kv. (fst kv, repair_points (snd kv))) (elements st),
                              write_calls := cs\<rparr>)" for cs
    using assms by (simp add: versions_numeric_def list_all_iff repair_points_other)
  then show ?thesis
    using assms by (simp add: save_scene_def Let_def split: option.splits jv.splits)
qed

text \<open>What a successful create stores for an arrow or a line, by the supplied points.\<close>

lemma z_enum_D: "z_enum vals v = Some v' \<Longrightarrow> v' = v"
  by (auto simp: z_enum_def split: jv.splits if_splits)

lemma create_parse_type:
  assumes "z_passthrough (ElementSchema types) (create_font (JObj a)) = Some (JObj params)"
  shows "obj_get params ''type'' = obj_get a ''type''"
proof -
  obtain a' where a': "create_font (JObj a) = JObj a'"
    using create_font_obj by blast
  have "(''type'', z_enum types) \<in> set (ElementSchema types)"
    by (simp add: ElementSchema_def)
  from z_object_gen_shape[OF assms[unfolded z_passthrough_def a'] distinct_ElementSchema this]
  show ?thesis using create_font_other[OF a'] by (auto dest: z_enum_D)
qed

lemma create_parse_size:
  assumes "z_passthrough (ElementSchema types) (create_font (JObj a)) = Some (JObj params)"
  shows "obj_get params ''width'' = obj_get a ''width''
       \<and> (obj_get a ''width'' = JUndef \<or> (\<exists>n. obj_get a ''width'' = JNum n))
       \<and> obj_get params ''height'' = obj_get a ''height''
       \<and> (obj_get a ''height'' = JUndef \<or> (\<exists>n. obj_get a ''height'' = JNum n))"
proof -
  obtain a' where a': "create_font (JObj a) = JObj a'"
    using create_font_obj by blast
  have "(''width'', z_optional z_number) \<in> set (ElementSchema types)"
    and "(''height'', z_optional z_number) \<in> set (ElementSchema types)"
    by (simp_all add: ElementSchema_def)
  from this[THEN z_object_gen_shape[OF assms[unfolded z_passthrough_def a'] distinct_ElementSchema]]
  show ?thesis using create_font_other[OF a'] by (auto dest: z_optional_number_D)
qed

lemma new_element_geometry:
  "obj_get (new_element w params) ''type'' = obj_get params ''type''"
  "obj_get (new_element w params) ''width'' = nullish (obj_get params ''width'') (JNum 10)"
  "obj_get (new_element w params) ''height'' = nullish (obj_get params ''height'') (JNum 10)"
  "obj_get (new_element w params) ''startArrowhead'' = JNull"
  "obj_get (new_element w params) ''endArrowhead'' = JNull"
  by (simp_all add: new_element_def obj_get_def)

text \<open>
  With fewer than two supplied points, an arrow or a line gets the two points (0,0) and
  (width, height) of the stored, defaulted size, except that a width of 0 gives 10; an
  arrow gets the end arrowhead "arrow" there.
\<close>

lemma synthesized_points:
  assumes ok: "fst (create_element w (JObj a) st) = Inr r"
    and ty: "obj_get a ''type'' = JStr ''arrow'' \<or> obj_get a ''type'' = JStr ''line''"
    and few: "obj_get a ''points'' = JUndef \<or> (\<exists>pts. obj_get a ''points'' = JArr pts \<and> length pts < 2)"
  shows "\<exists>wd ht.
           element_field (snd (create_element w (JObj a) st)) (generateId w) ''width'' = JNum wd
         \<and> nullish (obj_get a ''width'') (JNum 10) = JNum wd
         \<and> element_field (snd (create_element w (JObj a) st)) (generateId w) ''height'' = JNum ht
         \<and> nullish (obj_get a ''height'') (JNum 10) = JNum ht
         \<and> element_field (snd (create_element w (JObj a) st)) (generateId w) ''points''
             = JArr [JArr [JNum 0, JNum 0], JArr [JNum (if wd = 0 then 10 else wd), JNum ht]]
         \<and> element_field (snd (create_element w (JObj a) st)) (generateId w) ''endArrowhead''
             = (if obj_get a ''type'' = JStr ''arrow'' then JStr ''arrow'' else JNull)"
proof -
  from ok obtain b params where b: "JObj a = JObj b"
    and p: "z_passthrough (ElementSchema (element_types w)) (create_font (JObj b)) = Some (JObj params)"
    and f: "\<forall>k. element_field (snd (create_element w (JObj a) st)) (generateId w) k
              = obj_get (synthesize_points (new_element w params)) k"
    by (rule create_element_field)
  from b have ba: "b = a" by simp
  note p' = p[unfolded ba]
  let ?ne = "new_element w params"
  from create_parse_size[OF p'] obtain wd ht where
    wd: "nullish (obj_get a ''width'') (JNum 10) = JNum wd" "obj_get ?ne ''width'' = JNum wd"
    and ht: "nullish (obj_get a ''height'') (JNum 10) = JNum ht" "obj_get ?ne ''height'' = JNum ht"
    by (auto simp: new_element_geometry nullish_def)
  have lin: "is_linear ?ne"
    using ty by (simp add: is_linear_def new_element_geometry create_parse_type[OF p'])
  have inv: "points_invalid (obj_get ?ne ''points'')"
  proof -
    from few show ?thesis
    proof
      assume u: "obj_get a ''points'' = JUndef"
      with create_parse_points[OF p'] have "obj_get params ''points'' = JUndef"
        by (simp add: z_optional_def)
      then show ?thesis by (simp add: new_element_points)
    next
      assume "\<exists>pts. obj_get a ''points'' = JArr pts \<and> length pts < 2"
      then obtain pts where pts: "obj_get a ''points'' = JArr pts" "length pts < 2" by blast
      from create_parse_points[OF p'] pts(1)
      have "z_optional (z_array (z_object [(''x'', z_number), (''y'', z_number)])) (JArr pts)
            = Some (obj_get params ''points'')"
        by simp
      from z_points_D[OF this] pts(2) show ?thesis
        by (auto simp: new_element_points)
    qed
  qed
  have pts: "obj_get (synthesize_points ?ne) ''points''
             = JArr [JArr [JNum 0, JNum 0], JArr [JNum (if wd = 0 then 10 else wd), JNum ht]]"
    using lin inv wd(2) ht(2)
    by (simp add: synthesize_points_def Let_def obj_get_obj_set default_points_def js_or_def)
  have ah: "obj_get (synthesize_points ?ne) ''endArrowhead''
             = (if obj_get a ''type'' = JStr ''arrow'' then JStr ''arrow'' else JNull)"
    using lin inv
    by (simp add: synthesize_points_def Let_def obj_get_obj_set new_element_geometry
        create_parse_type[OF p'] nullish_def)
  have "element_field (snd (create_element w (JObj a) st)) (generateId w) ''width'' = JNum wd"
    and "element_field (snd (create_element w (JObj a) st)) (generateId w) ''height'' = JNum ht"
    using f wd(2) ht(2) by (simp_all add: obj_get_synthesize_points_other)
  with wd(1) ht(1) pts ah f show ?thesis by auto
qed

text \<open>
  With two or more supplied points the end arrowhead is null, for an arrow too.
\<close>

lemma supplied_points_arrowhead:
  assumes ok: "fst (create_element w (JObj a) st) = Inr r"
    and pts: "obj_get a ''points'' = JArr pts" and len: "2 \<le> length pts"
  shows "element_field (snd (create_element w (JObj a) st)) (generateId w) ''endArrowhead'' = JNull"
proof -
  from ok obtain b params where b: "JObj a = JObj b"
    and p: "z_passthrough (ElementSchema (element_types w)) (create_font (JObj b)) = Some (JObj params)"
    and f: "\<forall>k. element_field (snd (create_element w (JObj a) st)) (generateId w) k
              = obj_get (synthesize_points (new_element w params)) k"
    by (rule create_element_field)
  from b have ba: "b = a" by simp
  from create_parse_points[OF p[unfolded ba]] pts
  have "z_optional (z_array (z_object [(''x'', z_number), (''y'', z_number)])) (JArr pts)
        = Some (obj_get params ''points'')"
    by simp
  from z_points_D[OF this] len have "\<not> points_invalid (obj_get (new_element w params) ''points'')"
    by (auto simp: new_element_points)
  then have "synthesize_points (new_element w params) = new_element w params"
    by (rule synthesize_points_valid)
  with f show ?thesis by (simp add: new_element_geometry)
qed

text \<open>
  A create that succeeds with a non-empty font name stores the code of the lowered
  name, and 1 for a name that \<open>fontMap\<close> does not have.
\<close>

lemma create_font_name:
  assumes ok: "fst (create_element w (JObj a) st) = Inr r"
    and ff: "obj_get a ''fontFamily'' = JStr s" and ne: "s \<noteq> []"
  shows "element_field (snd (create_element w (JObj a) st)) (generateId w) ''fontFamily''
         = nullish (fontMap (toLowerCase s)) (JNum 1)"
proof -
  from ok obtain b params where b: "JObj a = JObj b"
    and p: "z_passthrough (ElementSchema (element_types w)) (create_font (JObj b)) = Some (JObj params)"
    and f: "\<forall>k. element_field (snd (create_element w (JObj a) st)) (generateId w) k
              = obj_get (synthesize_points (new_element w params)) k"
    by (rule create_element_field)
  from b have ba: "b = a" by simp
  let ?v = "nullish (fontMap (toLowerCase s)) (JNum 1)"
  have cf: "create_font (JObj a) = JObj (obj_set a ''fontFamily'' ?v)"
    using ff ne by (simp add: create_font_def)
  have "(''fontFamily'', z_optional z_number) \<in> set (ElementSchema (element_types w))"
    by (simp add: ElementSchema_def)
  from z_object_gen_shape[OF p[unfolded ba z_passthrough_def cf] distinct_ElementSchema this]
  have "z_optional z_number ?v = Some (obj_get params ''fontFamily'')"
    by (simp add: obj_get_obj_set)
  then have pv: "obj_get params ''fontFamily'' = ?v" and "?v = JUndef \<or> (\<exists>n. ?v = JNum n)"
    by (auto dest: z_optional_number_D)
  moreover have "?v \<noteq> JUndef" by (simp add: nullish_def)
  ultimately obtain n where n: "?v = JNum n" by blast
  have "obj_get (new_element w params) ''fontFamily'' = nullish (obj_get params ''fontFamily'') (JNum 1)"
    by (simp add: new_element_def obj_get_def)
  with f pv n show ?thesis
    by (simp add: obj_get_synthesize_points_other nullish_def)
qed

end
